theory Spec2Isabelle
  imports Main
begin

section \<open>Errors\<close>

text \<open>
  The domain errors of \<^verbatim>\<open>@app/utils\<close> that the services throw, each with its message.
  \<open>MongoServerError\<close> is the store's own error and carries the numeric \<^verbatim>\<open>code\<close> that
  \<^verbatim>\<open>blacklistToken\<close> inspects; \<open>OtherError\<close> stands for every other thrown value (a schema
  validation failure, a JWT library error, a TypeError).
\<close>

datatype error =
    ValidationError string
  | NotFoundError string
  | UnauthorizedError string
  | ForbiddenError string
  | IntegrityError string
  | MongoServerError nat string
  | OtherError string

fun message :: "error \<Rightarrow> string" where
  "message (ValidationError m) = m"
| "message (NotFoundError m) = m"
| "message (UnauthorizedError m) = m"
| "message (ForbiddenError m) = m"
| "message (IntegrityError m) = m"
| "message (MongoServerError c m) = m"
| "message (OtherError m) = m"

text \<open>
  \<^verbatim>\<open>error?.code\<close>, which the \<^verbatim>\<open>catch\<close> of \<^verbatim>\<open>blacklistToken\<close> compares with 11000: the store's
  error carries its code, no other error carries a store code.
\<close>

fun code :: "error \<Rightarrow> nat option" where
  "code (MongoServerError c m) = Some c"
| "code e = None"

text \<open>The HTTP exceptions the controller throws.\<close>

datatype http_exception =
    BadRequestException string
  | UnauthorizedException string
  | ForbiddenException string
  | ConflictException string
  | NotFoundException string

section \<open>Token blacklists\<close>

text \<open>
  The two blacklist collections hold token strings; the schema declares
  \<^verbatim>\<open>token\<close> as \<^verbatim>\<open>required\<close> and \<^verbatim>\<open>unique\<close>. A document is the token itself.
\<close>

record auth_state =
  blacklistAccess :: "string list"
  blacklistRefresh :: "string list"

text \<open>
  \<^verbatim>\<open>Model.create({ token })\<close> on a blacklist collection: the required string must be
  non-empty, and the unique index rejects a duplicate with code 11000.
\<close>

definition blacklist_create :: "string list \<Rightarrow> string \<Rightarrow> error + string list" where
  "blacklist_create coll token =
     (if token = [] then Inl (OtherError ''Path `token` is required.'')
      else if token \<in> set coll then Inl (MongoServerError 11000 ''E11000 duplicate key error'')
      else Inr (coll @ [token]))"

text \<open>The \<^verbatim>\<open>catch\<close> of \<^verbatim>\<open>blacklistToken\<close>: code 11000 becomes an IntegrityError.\<close>

definition blacklist_catch :: "error \<Rightarrow> error" where
  "blacklist_catch e =
     (if code e = Some 11000 then IntegrityError ''Token already blacklisted'' else e)"

definition blacklistToken :: "auth_state \<Rightarrow> string \<Rightarrow> string \<Rightarrow> error + auth_state" where
  "blacklistToken st token model =
     (if model = ''access'' then
        (case blacklist_create (blacklistAccess st) token of
           Inl e \<Rightarrow> Inl (blacklist_catch e)
         | Inr coll \<Rightarrow> Inr (st\<lparr>blacklistAccess := coll\<rparr>))
      else if model = ''refresh'' then
        (case blacklist_create (blacklistRefresh st) token of
           Inl e \<Rightarrow> Inl (blacklist_catch e)
         | Inr coll \<Rightarrow> Inr (st\<lparr>blacklistRefresh := coll\<rparr>))
      else Inl (blacklist_catch (ValidationError ''Invalid model'')))"

definition isTokenBlacklisted :: "auth_state \<Rightarrow> string \<Rightarrow> string \<Rightarrow> bool" where
  "isTokenBlacklisted st token model =
     (if model = ''access'' then token \<in> set (blacklistAccess st)
      else if model = ''refresh'' then token \<in> set (blacklistRefresh st)
      else False)"

section \<open>Token service\<close>

type_synonym objectId = string

text \<open>The user document as \<^verbatim>\<open>getTokens\<close> reads it, with the fields of the User schema.\<close>

record user =
  user_id :: objectId
  firstName :: string
  lastName :: string
  email :: string
  password :: string
  createdAt :: nat
  lastAuthChange :: nat
  status :: string

record payload =
  sub :: string
  payload_lastAuthChange :: nat
  iat :: nat
  type :: string

text \<open>The decoded claims: \<^verbatim>\<open>decoded.type\<close> and \<^verbatim>\<open>decoded.sub\<close>, either of which may be absent.\<close>

record claims =
  claims_type :: "string option"
  claims_sub :: "string option"

text \<open>Dates are kept as milliseconds since the epoch.\<close>

record AuthTokenResponse =
  accessToken :: string
  refreshToken :: string
  resp_userId :: string
  access_iat :: nat
  refresh_iat :: nat
  access_exp :: nat
  refresh_exp :: nat

text \<open>
  What the token service is injected with and does not define itself: the JWT library
  (signing and verification under the configured keys, algorithm and lifetimes), the
  parsing of a hexadecimal object id, and the user service's lookup by id. Verification
  and parsing may throw; the lookup may throw or return null.
\<close>

record auth_deps =
  jwtSign :: "payload \<Rightarrow> string"
  jwtVerify :: "nat \<Rightarrow> string \<Rightarrow> error + claims"
  createFromHexString :: "string \<Rightarrow> error + objectId"
  getUser :: "objectId \<Rightarrow> error + user option"

definition getTokens :: "auth_deps \<Rightarrow> nat \<Rightarrow> user \<Rightarrow> AuthTokenResponse" where
  "getTokens d now u =
     (let issuedAt = now div 1000;
          accessTokenExpiry = issuedAt + 60 * 60;
          refreshTokenExpiry = issuedAt + 60 * 60 * 24 * 7;
          p = \<lparr>sub = user_id u, payload_lastAuthChange = lastAuthChange u,
               iat = now div 1000, type = ''''\<rparr>
      in \<lparr>accessToken = jwtSign d (p\<lparr>type := ''access''\<rparr>),
          refreshToken = jwtSign d (p\<lparr>type := ''refresh''\<rparr>),
          resp_userId = user_id u,
          access_iat = issuedAt * 1000,
          refresh_iat = issuedAt * 1000,
          access_exp = accessTokenExpiry * 1000,
          refresh_exp = refreshTokenExpiry * 1000\<rparr>)"

text \<open>
  The body of the \<^verbatim>\<open>try\<close> block of \<^verbatim>\<open>refreshTokens\<close>, with the error each step throws.
  The blacklist write is the last step, so a failure leaves the state as it was.
\<close>

definition refreshTokens_try ::
  "auth_deps \<Rightarrow> nat \<Rightarrow> auth_state \<Rightarrow> string \<Rightarrow> error + (AuthTokenResponse \<times> auth_state)" where
  "refreshTokens_try d now st oldRefreshToken =
     (if isTokenBlacklisted st oldRefreshToken ''refresh''
      then Inl (ForbiddenError ''Token blacklisted'')
      else case jwtVerify d now oldRefreshToken of
        Inl e \<Rightarrow> Inl e
      | Inr decoded \<Rightarrow>
          if claims_type decoded \<noteq> Some ''refresh''
          then Inl (ForbiddenError ''Invalid token type'')
          else case createFromHexString d
                      (case claims_sub decoded of None \<Rightarrow> '''' | Some s \<Rightarrow> s) of
            Inl e \<Rightarrow> Inl e
          | Inr oid \<Rightarrow>
              (case getUser d oid of
                 Inl e \<Rightarrow> Inl e
               | Inr None \<Rightarrow> Inl (ForbiddenError ''User not found'')
               | Inr (Some u) \<Rightarrow>
                   (let newTokens = getTokens d now u
                    in case blacklistToken st oldRefreshToken ''refresh'' of
                         Inl e \<Rightarrow> Inl e
                       | Inr st' \<Rightarrow> Inr (newTokens, st'))))"

text \<open>\<^verbatim>\<open>refreshTokens\<close>: the \<^verbatim>\<open>catch\<close> replaces whatever was thrown.\<close>

definition refreshTokens ::
  "auth_deps \<Rightarrow> nat \<Rightarrow> auth_state \<Rightarrow> string \<Rightarrow> error + (AuthTokenResponse \<times> auth_state)" where
  "refreshTokens d now st oldRefreshToken =
     (case refreshTokens_try d now st oldRefreshToken of
        Inl e \<Rightarrow> Inl (UnauthorizedError ''Invalid token'')
      | Inr r \<Rightarrow> Inr r)"

section \<open>Controller: refresh and logout\<close>

text \<open>The \<^verbatim>\<open>catch\<close> of the controller's \<^verbatim>\<open>refresh\<close>.\<close>

definition refresh_catch :: "error \<Rightarrow> http_exception" where
  "refresh_catch e =
     (case e of
        ForbiddenError m \<Rightarrow> ForbiddenException m
      | UnauthorizedError m \<Rightarrow> UnauthorizedException m
      | IntegrityError m \<Rightarrow> ConflictException m
      | _ \<Rightarrow> BadRequestException (message e))"

definition refresh ::
  "auth_deps \<Rightarrow> nat \<Rightarrow> auth_state \<Rightarrow> string
     \<Rightarrow> http_exception + (AuthTokenResponse \<times> auth_state)" where
  "refresh d now st token =
     (case refreshTokens d now st token of
        Inl e \<Rightarrow> Inl (refresh_catch e)
      | Inr r \<Rightarrow> Inr r)"

text \<open>The \<^verbatim>\<open>catch\<close> of the controller's \<^verbatim>\<open>logout\<close>.\<close>

definition logout_catch :: "error \<Rightarrow> http_exception" where
  "logout_catch e =
     (case e of
        ValidationError m \<Rightarrow> BadRequestException m
      | IntegrityError m \<Rightarrow> ConflictException m
      | _ \<Rightarrow> BadRequestException (message e))"

text \<open>
  \<^verbatim>\<open>logout\<close>: two awaited writes in sequence. The result pairs the response with the
  state the stores are left in, also when the call throws: the first write stays
  committed when the second one fails.
\<close>

definition logout ::
  "auth_state \<Rightarrow> string \<Rightarrow> string \<Rightarrow> (http_exception + string) \<times> auth_state" where
  "logout st req_token body_token =
     (case blacklistToken st req_token ''access'' of
        Inl e \<Rightarrow> (Inl (logout_catch e), st)
      | Inr st1 \<Rightarrow>
          (case blacklistToken st1 body_token ''refresh'' of
             Inl e \<Rightarrow> (Inl (logout_catch e), st1)
           | Inr st2 \<Rightarrow> (Inr ''Successfully logged out'', st2)))"

text \<open>The one outcome a caller of a failed refresh sees, at the service and at the controller.\<close>

definition refresh_rejected :: "auth_deps \<Rightarrow> nat \<Rightarrow> auth_state \<Rightarrow> string \<Rightarrow> bool" where
  "refresh_rejected d now st tok \<longleftrightarrow>
     refreshTokens d now st tok = Inl (UnauthorizedError ''Invalid token'')
     \<and> refresh d now st tok = Inl (UnauthorizedException ''Invalid token'')"

section \<open>OTP records\<close>

text \<open>
  JavaScript values as far as the OTP code handles them, and their truthiness
  (\<^verbatim>\<open>!x\<close>, \<^verbatim>\<open>x && ...\<close>).
\<close>

datatype jsval = Undefined | JBool bool | JString string | JNumber nat | JObjectId objectId

fun truthy :: "jsval \<Rightarrow> bool" where
  "truthy Undefined = False"
| "truthy (JBool b) = b"
| "truthy (JString s) = (s \<noteq> [])"
| "truthy (JNumber n) = (n \<noteq> 0)"
| "truthy (JObjectId i) = True"

text \<open>
  The \<^verbatim>\<open>OTP\<close> schema class: these six paths and no other. (The schema also asks the store
  for creation and update timestamps, which no operation reads; they are left out.)
\<close>

record otp =
  hashedOTP :: string
  userId :: objectId
  expiresAt :: nat
  isUsed :: bool
  otpType :: string
  verificationToken :: "string option"

text \<open>
  A document as the service holds it after a query: the identifier it was found under,
  the stored paths, and the properties assigned on the object that are no path of the
  schema. The schema sets no \<^verbatim>\<open>strict\<close> option, so it is strict, as Mongoose schemas are by
  default: a key that is no path of the schema is not stored by \<^verbatim>\<open>create\<close>, and a property
  set on a document that is no path of the schema is not written by \<^verbatim>\<open>save\<close>. Reading a
  property that is neither a path nor was assigned gives \<^verbatim>\<open>undefined\<close>.
\<close>

record otp_document =
  doc_id :: string
  doc :: otp
  props :: "(string \<times> jsval) list"

definition prop_of :: "otp_document \<Rightarrow> string \<Rightarrow> jsval" where
  "prop_of d k = (case map_of (props d) k of None \<Rightarrow> Undefined | Some v \<Rightarrow> v)"

text \<open>
  The OTP collection: the stored documents in the collection's natural order, each
  under its own \<^verbatim>\<open>_id\<close>, together with the clock that \<^verbatim>\<open>Date.now()\<close> reads
  (milliseconds). The store keeps \<^verbatim>\<open>_id\<close> unique.
\<close>

record otp_state =
  clock :: nat
  otps :: "(string \<times> otp) list"

definition unique_ids :: "otp_state \<Rightarrow> bool" where
  "unique_ids st \<longleftrightarrow> distinct (map fst (otps st))"

text \<open>
  What the OTP service imports and does not define: the two functions of
  \<^verbatim>\<open>utils.encrypt\<close> and the configured lifetime in seconds. The second argument of
  \<open>verifyPassword\<close> is optional because \<^verbatim>\<open>verificationToken\<close> is an optional path.
\<close>

record otp_deps =
  encryptPassword :: "string \<Rightarrow> string"
  verifyPassword :: "string \<Rightarrow> string option \<Rightarrow> bool"
  OTP_EXPIRATION :: nat

text \<open>
  \<^verbatim>\<open>otpModel.create(obj)\<close> under the schema: a path is taken from the object when the
  object has it with a value of the path's type, paths with a default are filled in,
  \<^verbatim>\<open>hashedOTP\<close> and \<^verbatim>\<open>userId\<close> are required, \<^verbatim>\<open>otpType\<close> must be one of the two enumerated
  strings, and keys of the object that are no path of the schema are not stored. The
  identifier of the new document is fresh, and the document goes to the end of the
  collection.
\<close>

definition OTP_create ::
  "otp_deps \<Rightarrow> otp_state \<Rightarrow> string \<Rightarrow> (string \<times> jsval) list
     \<Rightarrow> error + (otp_document \<times> otp_state)" where
  "OTP_create d st new_id obj =
     (case map_of obj ''hashedOTP'' of
        Some (JString h) \<Rightarrow>
          (if h = [] then Inl (OtherError ''OTP validation failed: hashedOTP: Path `hashedOTP` is required.'')
           else case map_of obj ''userId'' of
             Some (JObjectId u) \<Rightarrow>
               (let ty = (case map_of obj ''otpType'' of Some (JString t) \<Rightarrow> t | _ \<Rightarrow> ''EMAIL'');
                    r = \<lparr>hashedOTP = h,
                         userId = u,
                         expiresAt = (case map_of obj ''expiresAt'' of
                                        Some (JNumber t) \<Rightarrow> t
                                      | _ \<Rightarrow> clock st + OTP_EXPIRATION d * 1000),
                         isUsed = (case map_of obj ''isUsed'' of Some (JBool b) \<Rightarrow> b | _ \<Rightarrow> False),
                         otpType = ty,
                         verificationToken = (case map_of obj ''verificationToken'' of
                                                Some (JString t) \<Rightarrow> Some t
                                              | _ \<Rightarrow> None)\<rparr>
                in if ty \<noteq> ''EMAIL'' \<and> ty \<noteq> ''AUTHENTICATOR''
                   then Inl (OtherError ''OTP validation failed: otpType: not a valid enum value'')
                   else if new_id \<in> set (map fst (otps st))
                   then Inl (MongoServerError 11000 ''E11000 duplicate key error'')
                   else Inr (\<lparr>doc_id = new_id, doc = r, props = []\<rparr>,
                             st\<lparr>otps := otps st @ [(new_id, r)]\<rparr>))
           | _ \<Rightarrow> Inl (OtherError ''OTP validation failed: userId: Path `userId` is required.''))
      | _ \<Rightarrow> Inl (OtherError ''OTP validation failed: hashedOTP: Path `hashedOTP` is required.''))"

text \<open>
  \<^verbatim>\<open>createOTP\<close>. The two results of \<^verbatim>\<open>generateOTP()\<close> are the arguments \<open>otp\<close> and
  \<open>token\<close>. The object literal carries the hash under the key \<^verbatim>\<open>otp\<close>.
\<close>

definition createOTP ::
  "otp_deps \<Rightarrow> otp_state \<Rightarrow> string \<Rightarrow> objectId \<Rightarrow> string \<Rightarrow> bool \<Rightarrow> string \<Rightarrow> string
     \<Rightarrow> error + (otp_document \<times> otp_state)" where
  "createOTP d st new_id uid ty multiUse otp token =
     (let hashed = encryptPassword d otp;
          obj = [(''userId'', JObjectId uid), (''otpType'', JString ty),
                 (''otp'', JString hashed), (''verificationToken'', JString token),
                 (''multiUse'', JBool multiUse)]
      in OTP_create d st new_id obj)"

text \<open>
  \<^verbatim>\<open>otpModel.findOne({ otpId, otpType })\<close>. \<^verbatim>\<open>otpType\<close> is a path of the schema; \<^verbatim>\<open>otpId\<close> is
  not, and the schema sets no \<^verbatim>\<open>strictQuery\<close>, so the key goes to the store as it is. A
  given \<^verbatim>\<open>otpId\<close> matches the documents whose field \<^verbatim>\<open>otpId\<close> has that value, and no stored
  document has such a field: it is not the document's \<^verbatim>\<open>_id\<close>, and nothing can store it.
  An \<^verbatim>\<open>otpId\<close> that the caller left out is \<^verbatim>\<open>undefined\<close>, which the store reads as
  \<^verbatim>\<open>null\<close> and which matches the documents without the field, that is, all of them. The
  first match in the collection's order is returned.
\<close>

definition OTP_findOne :: "otp_state \<Rightarrow> string option \<Rightarrow> string \<Rightarrow> otp_document option" where
  "OTP_findOne st otpId ty =
     (case otpId of
        Some x \<Rightarrow> None
      | None \<Rightarrow>
          (case find (\<lambda>e. otpType (snd e) = ty) (otps st) of
             None \<Rightarrow> None
           | Some e \<Rightarrow> Some \<lparr>doc_id = fst e, doc = snd e, props = []\<rparr>))"

text \<open>
  \<^verbatim>\<open>otpRecord.save()\<close> writes the paths of the schema to the document with the same
  \<^verbatim>\<open>_id\<close>; other properties stay on the object.
\<close>

definition OTP_save :: "otp_state \<Rightarrow> otp_document \<Rightarrow> otp_state" where
  "OTP_save st d =
     st\<lparr>otps := map (\<lambda>e. if fst e = doc_id d then (fst e, doc d) else e) (otps st)\<rparr>"

text \<open>
  \<^verbatim>\<open>verifyOTP\<close> and \<^verbatim>\<open>useOTP\<close>. The destructured parameters are the arguments; the
  parameter object is \<^verbatim>\<open>Partial\<close>, so \<^verbatim>\<open>otpId\<close>, \<^verbatim>\<open>otp\<close> and \<^verbatim>\<open>verificationToken\<close> may be
  absent, and \<^verbatim>\<open>x && ...\<close> also rejects the empty string. The result pairs what the call
  returns or throws with the state it leaves.
\<close>

definition verifyOTP ::
  "otp_deps \<Rightarrow> otp_state \<Rightarrow> string option \<Rightarrow> string \<Rightarrow> string option
     \<Rightarrow> (error + unit) \<times> otp_state" where
  "verifyOTP d st otpId ty otp =
     (case OTP_findOne st otpId ty of
        None \<Rightarrow> (Inl (UnauthorizedError ''Otp not found. It must have expired''), st)
      | Some otpRecord \<Rightarrow>
          if isUsed (doc otpRecord) then (Inl (UnauthorizedError ''OTP already used''), st)
          else if (case otp of
                     None \<Rightarrow> False
                   | Some c \<Rightarrow> c \<noteq> [] \<and> verifyPassword d c (Some (hashedOTP (doc otpRecord))))
          then (Inr (),
                OTP_save st (otpRecord\<lparr>props := (''isVerified'', JBool True) # props otpRecord\<rparr>))
          else (Inl (UnauthorizedError ''Invalid OTP''), st))"

definition useOTP ::
  "otp_deps \<Rightarrow> otp_state \<Rightarrow> string option \<Rightarrow> string \<Rightarrow> string option
     \<Rightarrow> (error + otp_document) \<times> otp_state" where
  "useOTP d st otpId ty token =
     (case OTP_findOne st otpId ty of
        None \<Rightarrow> (Inl (UnauthorizedError ''Otp not found. It must have expired''), st)
      | Some otpRecord \<Rightarrow>
          if isUsed (doc otpRecord) then (Inl (UnauthorizedError ''OTP already used''), st)
          else if (case token of
                     None \<Rightarrow> False
                   | Some t \<Rightarrow> t \<noteq> [] \<and> verifyPassword d t (verificationToken (doc otpRecord)))
          then (let used = (if \<not> truthy (prop_of otpRecord ''multiUse'')
                            then otpRecord\<lparr>doc := (doc otpRecord)\<lparr>isUsed := True\<rparr>\<rparr>
                            else otpRecord)
                in (Inr used, OTP_save st used))
          else (Inl (UnauthorizedError ''OTP verification failed''), st))"

text \<open>
  The index \<^verbatim>\<open>{ expiresAt: 1 }\<close> with \<^verbatim>\<open>expireAfterSeconds: 0\<close>: the store itself deletes,
  in the background, the documents whose \<^verbatim>\<open>expiresAt\<close> is reached. This is the only place
  where \<^verbatim>\<open>expiresAt\<close> is compared with the clock.
\<close>

definition ttl_expire :: "otp_state \<Rightarrow> otp_state" where
  "ttl_expire st = st\<lparr>otps := filter (\<lambda>e. clock st < expiresAt (snd e)) (otps st)\<rparr>"

text \<open>The calls of the OTP service, and the state a call leaves.\<close>

datatype otp_call =
    CreateOTP string objectId string bool string string
  | VerifyOTP "string option" string "string option"
  | UseOTP "string option" string "string option"

fun otp_step :: "otp_deps \<Rightarrow> otp_state \<Rightarrow> otp_call \<Rightarrow> otp_state" where
  "otp_step d st (CreateOTP new_id uid ty multiUse otp token) =
     (case createOTP d st new_id uid ty multiUse otp token of
        Inl e \<Rightarrow> st
      | Inr r \<Rightarrow> snd r)"
| "otp_step d st (VerifyOTP otpId ty otp) = snd (verifyOTP d st otpId ty otp)"
| "otp_step d st (UseOTP otpId ty token) = snd (useOTP d st otpId ty token)"

fun otp_run :: "otp_deps \<Rightarrow> otp_state \<Rightarrow> otp_call list \<Rightarrow> otp_state" where
  "otp_run d st [] = st"
| "otp_run d st (c # cs) = otp_run d (otp_step d st c) cs"

section \<open>Controller: actions behind the OTP guard\<close>

text \<open>
  The user document that \<^verbatim>\<open>usersService.getUser(null, { email })\<close> resolves, with the
  properties assigned on it, and the three operations of the user service that the two
  handlers call; \<open>'db\<close> is the state of the user collection.
\<close>

record user_document =
  user_doc :: user
  user_props :: "(string \<times> jsval) list"

definition user_prop :: "user_document \<Rightarrow> string \<Rightarrow> jsval" where
  "user_prop u k = (case map_of (user_props u) k of None \<Rightarrow> Undefined | Some v \<Rightarrow> v)"

record 'db user_deps =
  getUserByEmail :: "'db \<Rightarrow> string \<Rightarrow> error + user_document option"
  saveUser :: "'db \<Rightarrow> user_document \<Rightarrow> error + 'db"
  updateUser :: "'db \<Rightarrow> objectId \<Rightarrow> string \<Rightarrow> error + 'db"

text \<open>
  \<^verbatim>\<open>req.otpRecord.userId != user._id\<close>: both operands are ObjectId objects, one of the OTP
  document and one of the user document, and JavaScript compares two objects by
  reference. They are two objects, so the comparison holds whatever identifiers they
  carry, also when they carry the same one.
\<close>

definition loose_ne :: "objectId \<Rightarrow> objectId \<Rightarrow> bool" where
  "loose_ne a b = True"

definition not_permitted :: string where
  "not_permitted = ''You'' @ [CHR 0x27] @ ''re not permitted to carry this out. Request a new otp''"

definition verifyAccount_catch :: "error \<Rightarrow> http_exception" where
  "verifyAccount_catch e =
     (case e of
        UnauthorizedError m \<Rightarrow> UnauthorizedException m
      | _ \<Rightarrow> BadRequestException (message e))"

text \<open>
  \<^verbatim>\<open>verifyAccount\<close>. \<open>otpRecord\<close> is \<^verbatim>\<open>req.otpRecord\<close>, which the guard may have set. A
  null user makes the first property access throw a TypeError.
\<close>

definition verifyAccount ::
  "'db user_deps \<Rightarrow> 'db \<Rightarrow> otp_document option \<Rightarrow> string
     \<Rightarrow> (http_exception + string) \<times> 'db" where
  "verifyAccount ud db otpRecord mail =
     (case getUserByEmail ud db mail of
        Inl e \<Rightarrow> (Inl (verifyAccount_catch e), db)
      | Inr None \<Rightarrow>
          (Inl (verifyAccount_catch (OtherError ''Cannot read properties of null'')), db)
      | Inr (Some u) \<Rightarrow>
          if (case otpRecord of
                None \<Rightarrow> False
              | Some r \<Rightarrow> loose_ne (userId (doc r)) (user_id (user_doc u)))
          then (Inl (verifyAccount_catch (UnauthorizedError not_permitted)), db)
          else if truthy (user_prop u ''isVerified'')
          then (Inl (verifyAccount_catch (UnauthorizedError ''Account already verified'')), db)
          else case saveUser ud db (u\<lparr>user_props := (''isVerified'', JBool True) # user_props u\<rparr>) of
                 Inl e \<Rightarrow> (Inl (verifyAccount_catch e), db)
               | Inr db' \<Rightarrow> (Inr ''Account verified successfully..Proceed to log in'', db'))"

definition resetPassword_catch :: "error \<Rightarrow> http_exception" where
  "resetPassword_catch e =
     (case e of
        UnauthorizedError m \<Rightarrow> UnauthorizedException m
      | NotFoundError m \<Rightarrow> NotFoundException m
      | _ \<Rightarrow> BadRequestException (message e))"

definition resetPassword ::
  "'db user_deps \<Rightarrow> 'db \<Rightarrow> otp_document option \<Rightarrow> string \<Rightarrow> string
     \<Rightarrow> (http_exception + string) \<times> 'db" where
  "resetPassword ud db otpRecord mail pw =
     (case getUserByEmail ud db mail of
        Inl e \<Rightarrow> (Inl (resetPassword_catch e), db)
      | Inr None \<Rightarrow>
          (Inl (resetPassword_catch (OtherError ''Cannot read properties of null'')), db)
      | Inr (Some u) \<Rightarrow>
          if (case otpRecord of
                None \<Rightarrow> False
              | Some r \<Rightarrow> loose_ne (userId (doc r)) (user_id (user_doc u)))
          then (Inl (resetPassword_catch (UnauthorizedError not_permitted)), db)
          else case updateUser ud db (user_id (user_doc u)) pw of
                 Inl e \<Rightarrow> (Inl (resetPassword_catch e), db)
               | Inr db' \<Rightarrow> (Inr ''Password reset successfully'', db'))"

section \<open>Sample collaborators and states\<close>

text \<open>
  A toy JWT library: the token of a payload is its type and subject joined by a dot, and
  only the two tokens of the user \<open>aa\<close> verify. The user service knows that one user.
\<close>

definition sample_user :: user where
  "sample_user = \<lparr>user_id = ''aa'', firstName = ''Ada'', lastName = ''Bell'',
     email = ''a@x.com'', password = ''$hash'', createdAt = 0, lastAuthChange = 0,
     status = ''unverified''\<rparr>"

definition sample_deps :: auth_deps where
  "sample_deps =
     \<lparr>jwtSign = (\<lambda>p. type p @ ''.'' @ sub p),
      jwtVerify = (\<lambda>now t.
         if t = ''refresh.aa''
         then Inr \<lparr>claims_type = Some ''refresh'', claims_sub = Some ''aa''\<rparr>
         else if t = ''access.aa''
         then Inr \<lparr>claims_type = Some ''access'', claims_sub = Some ''aa''\<rparr>
         else Inl (OtherError ''jwt malformed'')),
      createFromHexString = (\<lambda>s.
         if s = ''aa'' then Inr s else Inl (OtherError ''hex string must be 24 characters'')),
      getUser = (\<lambda>i. if i = ''aa'' then Inr (Some sample_user) else Inr None)\<rparr>"

definition sample_auth_state :: auth_state where
  "sample_auth_state =
     \<lparr>blacklistAccess = [''spent-access''], blacklistRefresh = [''spent-refresh'']\<rparr>"

text \<open>
  A toy hashing scheme: the hash of a text is the text behind a marker, and a text
  verifies against exactly its hash. One stored record, whose \<^verbatim>\<open>expiresAt\<close> lies before
  the sample clock, and the user collection holding the owner of another identifier.
\<close>

definition sample_otp_deps :: otp_deps where
  "sample_otp_deps =
     \<lparr>encryptPassword = (\<lambda>p. ''$2b$'' @ p),
      verifyPassword = (\<lambda>p h. h = Some (''$2b$'' @ p)),
      OTP_EXPIRATION = 600\<rparr>"

definition sample_otp :: otp where
  "sample_otp = \<lparr>hashedOTP = ''$2b$123456'', userId = ''aa'', expiresAt = 1000000,
     isUsed = False, otpType = ''EMAIL'', verificationToken = Some ''$2b$654321''\<rparr>"

definition sample_otp_state :: otp_state where
  "sample_otp_state = \<lparr>clock = 2000000, otps = [(''otp1'', sample_otp)]\<rparr>"

definition sample_user_deps :: "user_document list user_deps" where
  "sample_user_deps =
     \<lparr>getUserByEmail = (\<lambda>db mail. Inr (find (\<lambda>u. email (user_doc u) = mail) db)),
      saveUser = (\<lambda>db u.
         Inr (map (\<lambda>v. if user_id (user_doc v) = user_id (user_doc u) then u else v) db)),
      updateUser = (\<lambda>db i pw.
         Inr (map (\<lambda>v. if user_id (user_doc v) = i
                        then v\<lparr>user_doc := (user_doc v)\<lparr>password := ''$2b$'' @ pw\<rparr>\<rparr>
                        else v) db))\<rparr>"

definition sample_users :: "user_document list" where
  "sample_users =
     [\<lparr>user_doc = sample_user\<lparr>user_id := ''bb'', email := ''b@x.com''\<rparr>, user_props = []\<rparr>]"

section \<open>Properties of the blacklist and of refresh\<close>

lemma blacklistToken_refresh_fresh:
  "token \<noteq> [] \<Longrightarrow> token \<notin> set (blacklistRefresh st) \<Longrightarrow>
   blacklistToken st token ''refresh'' =
     Inr (st\<lparr>blacklistRefresh := blacklistRefresh st @ [token]\<rparr>)"
  by (simp add: blacklistToken_def blacklist_create_def)

lemma blacklistToken_access_duplicate:
  "token \<noteq> [] \<Longrightarrow> token \<in> set (blacklistAccess st) \<Longrightarrow>
   blacklistToken st token ''access'' = Inl (IntegrityError ''Token already blacklisted'')"
  by (simp add: blacklistToken_def blacklist_create_def blacklist_catch_def)

lemma refreshTokens_collapse:
  "refreshTokens_try d now st tok = Inl c \<Longrightarrow>
   refreshTokens d now st tok = Inl (UnauthorizedError ''Invalid token'')"
  by (simp add: refreshTokens_def)

lemma refresh_collapse:
  "refreshTokens_try d now st tok = Inl c \<Longrightarrow>
   refresh d now st tok = Inl (UnauthorizedException ''Invalid token'')"
  by (simp add: refresh_def refresh_catch_def refreshTokens_collapse)

lemma refreshTokens_try_write_fails:
  "blacklistToken st tok ''refresh'' = Inl x \<Longrightarrow> \<exists>c. refreshTokens_try d now st tok = Inl c"
  by (auto simp: refreshTokens_try_def Let_def split: sum.splits option.splits)

text \<open>
  Claim C3. Whatever step of the refresh sequence fails (the token is on the refresh
  blacklist, the JWT verification throws, the decoded type is not \<open>refresh\<close>, the user
  lookup throws or finds nobody, the blacklist write is rejected), \<^verbatim>\<open>refreshTokens\<close>
  throws the one error \<open>UnauthorizedError ''Invalid token''\<close>, and the controller answers
  with \<open>UnauthorizedException ''Invalid token''\<close>. No other error ever leaves
  \<^verbatim>\<open>refreshTokens\<close>.
\<close>

theorem refreshTokens_failure_is_unauthorized:
  "(\<forall>e. refreshTokens d now st tok = Inl e \<longrightarrow> e = UnauthorizedError ''Invalid token'')
   \<and> (\<forall>c. refreshTokens_try d now st tok = Inl c \<longrightarrow> refresh_rejected d now st tok)
   \<and> (isTokenBlacklisted st tok ''refresh'' \<longrightarrow> refresh_rejected d now st tok)
   \<and> (\<forall>x. jwtVerify d now tok = Inl x \<longrightarrow> refresh_rejected d now st tok)
   \<and> (\<forall>c. jwtVerify d now tok = Inr c \<and> claims_type c \<noteq> Some ''refresh'' \<longrightarrow> refresh_rejected d now st tok)
   \<and> (\<forall>c oid. jwtVerify d now tok = Inr c
         \<and> createFromHexString d (case claims_sub c of None \<Rightarrow> [] | Some s \<Rightarrow> s) = Inr oid
         \<and> (getUser d oid = Inr None \<or> (\<exists>x. getUser d oid = Inl x)) \<longrightarrow> refresh_rejected d now st tok)
   \<and> (\<forall>x. blacklistToken st tok ''refresh'' = Inl x \<longrightarrow> refresh_rejected d now st tok)"
proof -
  have collapse: "refresh_rejected d now st tok" if "refreshTokens_try d now st tok = Inl c" for c
    using refreshTokens_collapse [OF that] refresh_collapse [OF that] by (simp add: refresh_rejected_def)
  have only: "e = UnauthorizedError ''Invalid token''"
    if "refreshTokens d now st tok = Inl e" for e
    using that by (auto simp: refreshTokens_def split: sum.splits)
  have black: "refresh_rejected d now st tok" if "isTokenBlacklisted st tok ''refresh''"
    using that collapse by (simp add: refreshTokens_try_def)
  have verify: "refresh_rejected d now st tok" if "jwtVerify d now tok = Inl x" for x
    using that collapse
    by (cases "isTokenBlacklisted st tok ''refresh''") (simp_all add: refreshTokens_try_def)
  have wrong_type: "refresh_rejected d now st tok"
    if "jwtVerify d now tok = Inr c" "claims_type c \<noteq> Some ''refresh''" for c
    using that collapse
    by (cases "isTokenBlacklisted st tok ''refresh''") (simp_all add: refreshTokens_try_def)
  have no_user: "refresh_rejected d now st tok"
    if "jwtVerify d now tok = Inr c"
      "createFromHexString d (case claims_sub c of None \<Rightarrow> [] | Some s \<Rightarrow> s) = Inr oid"
      "getUser d oid = Inr None \<or> (\<exists>x. getUser d oid = Inl x)" for c oid
  proof -
    have "\<exists>e. refreshTokens_try d now st tok = Inl e"
      using that by (auto simp: refreshTokens_try_def)
    then show ?thesis using collapse by blast
  qed
  have conflict: "refresh_rejected d now st tok" if "blacklistToken st tok ''refresh'' = Inl x" for x
    using refreshTokens_try_write_fails [OF that] collapse by blast
  show ?thesis
    using only collapse black verify wrong_type no_user conflict by blast
qed

theorem refreshTokens_failure_is_unauthorized_witness:
  "isTokenBlacklisted sample_auth_state ''spent-refresh'' ''refresh''
   \<and> refreshTokens_try sample_deps 5000 sample_auth_state ''spent-refresh''
       = Inl (ForbiddenError ''Token blacklisted'')
   \<and> refreshTokens sample_deps 5000 sample_auth_state ''spent-refresh''
       = Inl (UnauthorizedError ''Invalid token'')
   \<and> refresh sample_deps 5000 sample_auth_state ''spent-refresh''
       = Inl (UnauthorizedException ''Invalid token'')"
proof -
  have h: "isTokenBlacklisted sample_auth_state ''spent-refresh'' ''refresh''"
    by (simp add: isTokenBlacklisted_def sample_auth_state_def)
  have c: "refreshTokens_try sample_deps 5000 sample_auth_state ''spent-refresh''
       = Inl (ForbiddenError ''Token blacklisted'')"
    using h by (simp add: refreshTokens_try_def)
  show ?thesis
  proof -
    have "refresh_rejected sample_deps 5000 sample_auth_state ''spent-refresh''"
      using h refreshTokens_failure_is_unauthorized
        [of sample_deps 5000 sample_auth_state "''spent-refresh''"]
      by blast
    then show ?thesis using h c unfolding refresh_rejected_def by blast
  qed
qed

text \<open>
  Claim C4, as stated: a token whose decoded type is not \<open>refresh\<close> makes the refresh
  operation fail with a Forbidden error. It does not. The access token of the sample
  user verifies with type \<open>access\<close>; the \<^verbatim>\<open>try\<close> block throws
  \<open>ForbiddenError ''Invalid token type''\<close>, the \<^verbatim>\<open>catch\<close> of \<^verbatim>\<open>refreshTokens\<close> replaces it, and
  both the service and the controller end with an Unauthorized error.
\<close>

theorem refresh_wrong_type_forbidden_counterexample:
  "jwtVerify sample_deps 5000 ''access.aa''
     = Inr \<lparr>claims_type = Some ''access'', claims_sub = Some ''aa''\<rparr>
   \<and> refreshTokens_try sample_deps 5000 sample_auth_state ''access.aa''
       = Inl (ForbiddenError ''Invalid token type'')
   \<and> refreshTokens sample_deps 5000 sample_auth_state ''access.aa''
       = Inl (UnauthorizedError ''Invalid token'')
   \<and> refresh sample_deps 5000 sample_auth_state ''access.aa''
       = Inl (UnauthorizedException ''Invalid token'')
   \<and> refresh sample_deps 5000 sample_auth_state ''access.aa''
       \<noteq> Inl (ForbiddenException ''Invalid token type'')"
proof -
  have v: "jwtVerify sample_deps 5000 ''access.aa''
     = Inr \<lparr>claims_type = Some ''access'', claims_sub = Some ''aa''\<rparr>"
    by (simp add: sample_deps_def)
  have nb: "\<not> isTokenBlacklisted sample_auth_state ''access.aa'' ''refresh''"
    by (simp add: isTokenBlacklisted_def sample_auth_state_def)
  have t: "refreshTokens_try sample_deps 5000 sample_auth_state ''access.aa''
       = Inl (ForbiddenError ''Invalid token type'')"
    using nb by (simp add: refreshTokens_try_def v)
  have s: "refreshTokens sample_deps 5000 sample_auth_state ''access.aa''
       = Inl (UnauthorizedError ''Invalid token'')"
    by (rule refreshTokens_collapse [OF t])
  have c: "refresh sample_deps 5000 sample_auth_state ''access.aa''
       = Inl (UnauthorizedException ''Invalid token'')"
    by (rule refresh_collapse [OF t])
  show ?thesis using v t s c by simp
qed

text \<open>
  Claim C4, amended. For every token whose decoded type claim is not \<open>refresh\<close>, the
  refresh operation fails with the Unauthorized error \<open>Invalid token\<close>, at the service and
  at the controller, and never with a Forbidden one; the \<open>ForbiddenError\<close> thrown inside
  (\<open>Invalid token type\<close>, when the token is not blacklisted) is discarded by the \<^verbatim>\<open>catch\<close>.
\<close>

theorem refresh_wrong_type_unauthorized:
  assumes "jwtVerify d now tok = Inr c" and "claims_type c \<noteq> Some ''refresh''"
  shows "refreshTokens d now st tok = Inl (UnauthorizedError ''Invalid token'')
   \<and> refresh d now st tok = Inl (UnauthorizedException ''Invalid token'')
   \<and> (\<forall>m. refresh d now st tok \<noteq> Inl (ForbiddenException m))
   \<and> (\<not> isTokenBlacklisted st tok ''refresh'' \<longrightarrow>
        refreshTokens_try d now st tok = Inl (ForbiddenError ''Invalid token type''))"
proof -
  have inner: "\<exists>e. refreshTokens_try d now st tok = Inl e"
    using assms by (simp add: refreshTokens_try_def)
  then obtain e where e: "refreshTokens_try d now st tok = Inl e" ..
  have cause: "refreshTokens_try d now st tok = Inl (ForbiddenError ''Invalid token type'')"
    if "\<not> isTokenBlacklisted st tok ''refresh''"
    using that assms by (simp add: refreshTokens_try_def)
  show ?thesis
    using refreshTokens_collapse [OF e] refresh_collapse [OF e] cause by simp
qed

theorem refresh_wrong_type_unauthorized_witness:
  "jwtVerify sample_deps 5000 ''access.aa''
     = Inr \<lparr>claims_type = Some ''access'', claims_sub = Some ''aa''\<rparr>
   \<and> Some ''access'' \<noteq> Some ''refresh''
   \<and> refreshTokens sample_deps 5000 \<lparr>blacklistAccess = [], blacklistRefresh = []\<rparr> ''access.aa''
       = Inl (UnauthorizedError ''Invalid token'')
   \<and> refresh sample_deps 5000 \<lparr>blacklistAccess = [], blacklistRefresh = []\<rparr> ''access.aa''
       = Inl (UnauthorizedException ''Invalid token'')"
proof -
  have v: "jwtVerify sample_deps 5000 ''access.aa''
     = Inr \<lparr>claims_type = Some ''access'', claims_sub = Some ''aa''\<rparr>"
    by (simp add: sample_deps_def)
  have ty: "claims_type \<lparr>claims_type = Some ''access'', claims_sub = Some ''aa''\<rparr>
     \<noteq> Some ''refresh''"
    by simp
  show ?thesis
    using v refresh_wrong_type_unauthorized
      [OF v ty, of "\<lparr>blacklistAccess = [], blacklistRefresh = []\<rparr>"]
    by simp
qed

text \<open>
  Claim C5, as stated: the second of two refreshes with the same token fails with a
  revocation-class error. The first refresh of the sample user's token succeeds and
  blacklists it; the second does fail at the blacklist check, but what the caller gets is
  \<open>UnauthorizedError ''Invalid token''\<close> (\<open>UnauthorizedException\<close> at the controller), the
  error of every other refresh failure, and not the \<open>ForbiddenError\<close> of a revoked token.
\<close>

theorem refresh_twice_revocation_counterexample:
  "refreshTokens sample_deps 5000 sample_auth_state ''refresh.aa''
     = Inr (getTokens sample_deps 5000 sample_user,
            sample_auth_state\<lparr>blacklistRefresh := [''spent-refresh'', ''refresh.aa'']\<rparr>)
   \<and> refreshTokens sample_deps 6000
        (sample_auth_state\<lparr>blacklistRefresh := [''spent-refresh'', ''refresh.aa'']\<rparr>)
        ''refresh.aa''
       = Inl (UnauthorizedError ''Invalid token'')
   \<and> refreshTokens sample_deps 6000
        (sample_auth_state\<lparr>blacklistRefresh := [''spent-refresh'', ''refresh.aa'']\<rparr>)
        ''refresh.aa''
       \<noteq> Inl (ForbiddenError ''Token blacklisted'')
   \<and> refresh sample_deps 6000
        (sample_auth_state\<lparr>blacklistRefresh := [''spent-refresh'', ''refresh.aa'']\<rparr>)
        ''refresh.aa''
       = Inl (UnauthorizedException ''Invalid token'')"
proof -
  let ?st1 = "sample_auth_state\<lparr>blacklistRefresh := [''spent-refresh'', ''refresh.aa'']\<rparr>"
  have stored: "blacklistToken sample_auth_state ''refresh.aa'' ''refresh'' = Inr ?st1"
    by (simp add: blacklistToken_def blacklist_create_def sample_auth_state_def)
  have first_try: "refreshTokens_try sample_deps 5000 sample_auth_state ''refresh.aa''
      = Inr (getTokens sample_deps 5000 sample_user, ?st1)"
    by (simp add: refreshTokens_try_def isTokenBlacklisted_def sample_deps_def stored)
      (simp add: sample_auth_state_def)
  have first: "refreshTokens sample_deps 5000 sample_auth_state ''refresh.aa''
      = Inr (getTokens sample_deps 5000 sample_user, ?st1)"
    by (simp add: refreshTokens_def first_try)
  have second_try: "refreshTokens_try sample_deps 6000 ?st1 ''refresh.aa''
      = Inl (ForbiddenError ''Token blacklisted'')"
    by (simp add: refreshTokens_try_def isTokenBlacklisted_def)
  show ?thesis
    using first refreshTokens_collapse [OF second_try] refresh_collapse [OF second_try]
    by simp
qed

text \<open>
  Claim C5, amended. For a valid refresh token (a non-empty string, not blacklisted,
  verifying with type \<open>refresh\<close>, its subject resolving to a user), the first refresh succeeds: it returns the
  new pair made by \<^verbatim>\<open>getTokens\<close> and appends the consumed token to the refresh blacklist,
  leaving the access blacklist alone. A second refresh with the same string, at any later
  time, fails because the token is now on the refresh blacklist: the blacklist check
  throws \<open>ForbiddenError ''Token blacklisted''\<close>, and the caller receives
  \<open>UnauthorizedError ''Invalid token''\<close>.
\<close>

theorem refresh_twice:
  assumes fresh: "\<not> isTokenBlacklisted st tok ''refresh''"
    and nonempty: "tok \<noteq> []"
    and verified: "jwtVerify d now tok = Inr c"
    and rtype: "claims_type c = Some ''refresh''"
    and parsed: "createFromHexString d (case claims_sub c of None \<Rightarrow> [] | Some s \<Rightarrow> s) = Inr oid"
    and found: "getUser d oid = Inr (Some u)"
  shows "\<exists>st'. refreshTokens d now st tok = Inr (getTokens d now u, st')
     \<and> refresh d now st tok = Inr (getTokens d now u, st')
     \<and> blacklistRefresh st' = blacklistRefresh st @ [tok]
     \<and> blacklistAccess st' = blacklistAccess st
     \<and> isTokenBlacklisted st' tok ''refresh''
     \<and> (\<forall>d' now'. refreshTokens_try d' now' st' tok = Inl (ForbiddenError ''Token blacklisted'')
           \<and> refreshTokens d' now' st' tok = Inl (UnauthorizedError ''Invalid token'')
           \<and> refresh d' now' st' tok = Inl (UnauthorizedException ''Invalid token''))"
proof -
  let ?st' = "st\<lparr>blacklistRefresh := blacklistRefresh st @ [tok]\<rparr>"
  have notin: "tok \<notin> set (blacklistRefresh st)"
    using fresh by (simp add: isTokenBlacklisted_def)
  have stored: "blacklistToken st tok ''refresh'' = Inr ?st'"
    by (rule blacklistToken_refresh_fresh [OF nonempty notin])
  have first_try: "refreshTokens_try d now st tok = Inr (getTokens d now u, ?st')"
    using fresh verified rtype parsed found stored
    by (simp add: refreshTokens_try_def)
  have first: "refreshTokens d now st tok = Inr (getTokens d now u, ?st')"
    by (simp add: refreshTokens_def first_try)
  have first_http: "refresh d now st tok = Inr (getTokens d now u, ?st')"
    by (simp add: refresh_def first)
  have listed: "isTokenBlacklisted ?st' tok ''refresh''"
    by (simp add: isTokenBlacklisted_def)
  have second_try:
    "refreshTokens_try d' now' ?st' tok = Inl (ForbiddenError ''Token blacklisted'')"
    for d' now'
    using listed by (simp add: refreshTokens_try_def)
  have second: "refreshTokens d' now' ?st' tok = Inl (UnauthorizedError ''Invalid token'')
      \<and> refresh d' now' ?st' tok = Inl (UnauthorizedException ''Invalid token'')"
    for d' now'
    using refreshTokens_collapse [OF second_try] refresh_collapse [OF second_try] by simp
  show ?thesis
    using first first_http listed second_try second
    by (intro exI [of _ ?st']) simp
qed

theorem refresh_twice_witness:
  "\<not> isTokenBlacklisted sample_auth_state ''refresh.aa'' ''refresh''
   \<and> jwtVerify sample_deps 5000 ''refresh.aa''
       = Inr \<lparr>claims_type = Some ''refresh'', claims_sub = Some ''aa''\<rparr>
   \<and> getUser sample_deps ''aa'' = Inr (Some sample_user)
   \<and> (\<exists>st'. refreshTokens sample_deps 5000 sample_auth_state ''refresh.aa''
              = Inr (getTokens sample_deps 5000 sample_user, st')
         \<and> blacklistRefresh st' = [''spent-refresh'', ''refresh.aa'']
         \<and> refreshTokens sample_deps 6000 st' ''refresh.aa''
              = Inl (UnauthorizedError ''Invalid token''))"
proof -
  let ?c = "\<lparr>claims_type = Some ''refresh'', claims_sub = Some ''aa''\<rparr>"
  have fresh: "\<not> isTokenBlacklisted sample_auth_state ''refresh.aa'' ''refresh''"
    by (simp add: isTokenBlacklisted_def sample_auth_state_def)
  have nonempty: "''refresh.aa'' \<noteq> []" by simp
  have verified: "jwtVerify sample_deps 5000 ''refresh.aa'' = Inr ?c"
    by (simp add: sample_deps_def)
  have rtype: "claims_type ?c = Some ''refresh''" by simp
  have parsed: "createFromHexString sample_deps
      (case claims_sub ?c of None \<Rightarrow> [] | Some s \<Rightarrow> s) = Inr ''aa''"
    by (simp add: sample_deps_def)
  have found: "getUser sample_deps ''aa'' = Inr (Some sample_user)"
    by (simp add: sample_deps_def)
  have old: "blacklistRefresh sample_auth_state = [''spent-refresh'']"
    by (simp add: sample_auth_state_def)
  from refresh_twice [OF fresh nonempty verified rtype parsed found]
  obtain st' where
    1: "refreshTokens sample_deps 5000 sample_auth_state ''refresh.aa''
          = Inr (getTokens sample_deps 5000 sample_user, st')"
    and 2: "blacklistRefresh st' = blacklistRefresh sample_auth_state @ [''refresh.aa'']"
    and 3: "\<forall>d' now'. refreshTokens_try d' now' st' ''refresh.aa''
               = Inl (ForbiddenError ''Token blacklisted'')
           \<and> refreshTokens d' now' st' ''refresh.aa'' = Inl (UnauthorizedError ''Invalid token'')
           \<and> refresh d' now' st' ''refresh.aa'' = Inl (UnauthorizedException ''Invalid token'')"
    by blast
  from 3 have 4: "refreshTokens sample_deps 6000 st' ''refresh.aa''
      = Inl (UnauthorizedError ''Invalid token'')"
    by blast
  from 2 old have 5: "blacklistRefresh st' = [''spent-refresh'', ''refresh.aa'']"
    by simp
  show ?thesis
    using fresh verified found 1 4 5 by blast
qed

section \<open>Properties of logout\<close>

lemma logout_first_write_fails:
  "blacklistToken st acc ''access'' = Inl e \<Longrightarrow> logout st acc rt = (Inl (logout_catch e), st)"
  by (simp add: logout_def)

text \<open>
  Claim C10. \<^verbatim>\<open>logout\<close> writes the access token first and the refresh token second, and
  the two writes are not one transaction. Whenever the first write is rejected, the call
  ends with the mapped error and both blacklists are as before, so the supplied refresh
  token is exactly as blacklisted as it was; an access token that is already on the
  access blacklist is such a case and gives \<open>ConflictException ''Token already blacklisted''\<close>.
  A refresh token that was not blacklisted then still passes the blacklist check of
  \<^verbatim>\<open>refreshTokens\<close>. Symmetrically, when the first write succeeds and the second is rejected,
  the access token stays blacklisted.
\<close>

theorem logout_not_atomic:
  "(\<forall>e. blacklistToken st acc ''access'' = Inl e \<longrightarrow>
       logout st acc rt = (Inl (logout_catch e), st)
       \<and> isTokenBlacklisted (snd (logout st acc rt)) rt ''refresh''
           = isTokenBlacklisted st rt ''refresh''
       \<and> refreshTokens d now (snd (logout st acc rt)) rt = refreshTokens d now st rt)
   \<and> (acc \<noteq> [] \<and> isTokenBlacklisted st acc ''access'' \<longrightarrow>
       logout st acc rt = (Inl (ConflictException ''Token already blacklisted''), st))
   \<and> (\<forall>st1 e. blacklistToken st acc ''access'' = Inr st1
         \<and> blacklistToken st1 rt ''refresh'' = Inl e \<longrightarrow>
       logout st acc rt = (Inl (logout_catch e), st1)
       \<and> isTokenBlacklisted (snd (logout st acc rt)) acc ''access'')
   \<and> (\<forall>st1 st2. blacklistToken st acc ''access'' = Inr st1
         \<and> blacklistToken st1 rt ''refresh'' = Inr st2 \<longrightarrow>
       logout st acc rt = (Inr ''Successfully logged out'', st2)
       \<and> isTokenBlacklisted st2 acc ''access'' \<and> isTokenBlacklisted st2 rt ''refresh'')"
proof -
  have first_fails: "logout st acc rt = (Inl (logout_catch e), st)
       \<and> isTokenBlacklisted (snd (logout st acc rt)) rt ''refresh''
           = isTokenBlacklisted st rt ''refresh''
       \<and> refreshTokens d now (snd (logout st acc rt)) rt = refreshTokens d now st rt"
    if "blacklistToken st acc ''access'' = Inl e" for e
    using logout_first_write_fails [OF that] by simp
  have duplicate: "logout st acc rt = (Inl (ConflictException ''Token already blacklisted''), st)"
    if "acc \<noteq> []" "isTokenBlacklisted st acc ''access''"
  proof -
    have "acc \<in> set (blacklistAccess st)"
      using that(2) by (simp add: isTokenBlacklisted_def)
    then have "blacklistToken st acc ''access'' = Inl (IntegrityError ''Token already blacklisted'')"
      using that(1) by (rule blacklistToken_access_duplicate [rotated])
    then show ?thesis
      by (simp add: logout_def logout_catch_def)
  qed
  have acc_in: "isTokenBlacklisted st1 acc ''access''"
    if "blacklistToken st acc ''access'' = Inr st1" for st1
    using that
    by (auto simp: blacklistToken_def blacklist_create_def isTokenBlacklisted_def
        split: if_splits)
  have second_fails: "logout st acc rt = (Inl (logout_catch e), st1)
       \<and> isTokenBlacklisted (snd (logout st acc rt)) acc ''access''"
    if "blacklistToken st acc ''access'' = Inr st1" "blacklistToken st1 rt ''refresh'' = Inl e"
    for st1 e
    using that acc_in [OF that(1)] by (simp add: logout_def)
  have both: "logout st acc rt = (Inr ''Successfully logged out'', st2)
       \<and> isTokenBlacklisted st2 acc ''access'' \<and> isTokenBlacklisted st2 rt ''refresh''"
    if 1: "blacklistToken st acc ''access'' = Inr st1"
      and 2: "blacklistToken st1 rt ''refresh'' = Inr st2" for st1 st2
  proof -
    have "isTokenBlacklisted st2 rt ''refresh''"
      using 2
      by (auto simp: blacklistToken_def blacklist_create_def isTokenBlacklisted_def
          split: if_splits)
    moreover have "blacklistAccess st2 = blacklistAccess st1"
      using 2
      by (auto simp: blacklistToken_def blacklist_create_def split: if_splits)
    then have "isTokenBlacklisted st2 acc ''access''"
      using acc_in [OF 1] by (simp add: isTokenBlacklisted_def)
    ultimately show ?thesis
      using 1 2 by (simp add: logout_def)
  qed
  show ?thesis
    using first_fails duplicate second_fails both by blast
qed

theorem logout_not_atomic_witness:
  "blacklistToken sample_auth_state ''spent-access'' ''access''
     = Inl (IntegrityError ''Token already blacklisted'')
   \<and> logout sample_auth_state ''spent-access'' ''refresh.aa''
     = (Inl (ConflictException ''Token already blacklisted''), sample_auth_state)
   \<and> \<not> isTokenBlacklisted (snd (logout sample_auth_state ''spent-access'' ''refresh.aa''))
         ''refresh.aa'' ''refresh''"
proof -
  have h: "blacklistToken sample_auth_state ''spent-access'' ''access''
     = Inl (IntegrityError ''Token already blacklisted'')"
    by (simp add: blacklistToken_def blacklist_create_def blacklist_catch_def
        sample_auth_state_def)
  have before: "\<not> isTokenBlacklisted sample_auth_state ''refresh.aa'' ''refresh''"
    by (simp add: isTokenBlacklisted_def sample_auth_state_def)
  have "logout sample_auth_state ''spent-access'' ''refresh.aa''
       = (Inl (logout_catch (IntegrityError ''Token already blacklisted'')), sample_auth_state)
     \<and> isTokenBlacklisted (snd (logout sample_auth_state ''spent-access'' ''refresh.aa''))
           ''refresh.aa'' ''refresh''
         = isTokenBlacklisted sample_auth_state ''refresh.aa'' ''refresh''"
    using h logout_not_atomic
      [of sample_auth_state "''spent-access''" "''refresh.aa''" sample_deps 5000]
    by blast
  then show ?thesis
    using h before by (simp add: logout_catch_def)
qed

section \<open>Properties of the OTP service\<close>

subsection \<open>Queries and writes\<close>

lemma find_SomeD: "find P xs = Some x \<Longrightarrow> x \<in> set xs \<and> P x"
  by (induction xs) (auto split: if_splits)

lemma OTP_findOne_named: "OTP_findOne st (Some x) ty = None"
  by (simp add: OTP_findOne_def)

lemma OTP_findOne_first:
  "find (\<lambda>e. otpType (snd e) = ty) (otps st) = Some (i, r) \<Longrightarrow>
   OTP_findOne st None ty = Some \<lparr>doc_id = i, doc = r, props = []\<rparr>"
  by (simp add: OTP_findOne_def)

lemma OTP_findOne_clock:
  "OTP_findOne (st\<lparr>clock := t\<rparr>) otpId ty = OTP_findOne st otpId ty"
  by (cases otpId) (simp_all add: OTP_findOne_def)

lemma OTP_findOne_SomeD:
  assumes "OTP_findOne st otpId ty = Some dc"
  shows "otpId = None \<and> find (\<lambda>e. otpType (snd e) = ty) (otps st) = Some (doc_id dc, doc dc)
     \<and> props dc = []"
  using assms by (auto simp: OTP_findOne_def split: option.splits)

lemma find_after_save:
  assumes "find (\<lambda>e. otpType (snd e) = ty) xs = Some (i, r)" and "otpType r' = ty"
  shows "find (\<lambda>e. otpType (snd e) = ty) (map (\<lambda>e. if fst e = i then (fst e, r') else e) xs)
     = Some (i, r')"
  using assms
proof (induction xs)
  case Nil
  then show ?case by simp
next
  case (Cons e xs)
  show ?case
  proof (cases "otpType (snd e) = ty")
    case True
    then have "e = (i, r)" using Cons.prems(1) by simp
    then show ?thesis using Cons.prems(2) by simp
  next
    case False
    then have rest: "find (\<lambda>e. otpType (snd e) = ty) xs = Some (i, r)"
      using Cons.prems(1) by simp
    show ?thesis
      using False Cons.IH [OF rest Cons.prems(2)] Cons.prems(2) by simp
  qed
qed

lemma save_same:
  assumes "distinct (map fst xs)" and "(i, r) \<in> set xs"
  shows "map (\<lambda>e. if fst e = i then (i, r) else e) xs = xs"
proof (rule map_idI)
  fix e assume e: "e \<in> set xs"
  show "(if fst e = i then (i, r) else e) = e"
  proof (cases "fst e = i")
    case True
    then have "(i, snd e) \<in> set xs" using e by (metis prod.collapse)
    then have "snd e = r" using assms by (meson eq_key_imp_eq_value)
    then show ?thesis using True by (metis prod.collapse)
  next
    case False
    then show ?thesis by simp
  qed
qed

lemma map_of_after_save:
  "map_of (map (\<lambda>e. if fst e = i then (fst e, r') else e) xs) k
     = (case map_of xs k of None \<Rightarrow> None | Some v \<Rightarrow> if k = i then Some r' else Some v)"
  by (induction xs) (auto split: option.splits)

lemma OTP_save_ids: "map fst (otps (OTP_save st d)) = map fst (otps st)"
  by (induction "otps st" arbitrary: st) (simp_all add: OTP_save_def)

lemma OTP_save_found:
  assumes "unique_ids st" and "find (\<lambda>e. otpType (snd e) = ty) (otps st) = Some (i, r)"
  shows "OTP_save st \<lparr>doc_id = i, doc = r, props = ps\<rparr> = st"
proof -
  have "(i, r) \<in> set (otps st)"
    using find_SomeD [OF assms(2)] by simp
  then show ?thesis
    using assms(1) by (simp add: OTP_save_def unique_ids_def save_same cong: if_cong)
qed

subsection \<open>What a call returns and leaves\<close>

lemma verifyOTP_not_found:
  "OTP_findOne st otpId ty = None \<Longrightarrow>
   verifyOTP d st otpId ty otp
     = (Inl (UnauthorizedError ''Otp not found. It must have expired''), st)"
  by (simp add: verifyOTP_def)

lemma useOTP_not_found:
  "OTP_findOne st otpId ty = None \<Longrightarrow>
   useOTP d st otpId ty token
     = (Inl (UnauthorizedError ''Otp not found. It must have expired''), st)"
  by (simp add: useOTP_def)

lemma verifyOTP_success:
  assumes "unique_ids st" and "find (\<lambda>e. otpType (snd e) = ty) (otps st) = Some (i, r)"
    and "\<not> isUsed r" and "c \<noteq> []" and "verifyPassword d c (Some (hashedOTP r))"
  shows "verifyOTP d st None ty (Some c) = (Inr (), st)"
  using assms(3-5)
  by (simp add: verifyOTP_def OTP_findOne_first [OF assms(2)] OTP_save_found [OF assms(1,2)])

lemma verifyOTP_state:
  assumes "unique_ids st"
  shows "snd (verifyOTP d st otpId ty otp) = st"
proof (cases "OTP_findOne st otpId ty")
  case None
  then show ?thesis by (simp add: verifyOTP_not_found)
next
  case (Some dc)
  from OTP_findOne_SomeD [OF Some]
  have found: "find (\<lambda>e. otpType (snd e) = ty) (otps st) = Some (doc_id dc, doc dc)"
    by simp
  have "OTP_save st (dc\<lparr>props := (''isVerified'', JBool True) # props dc\<rparr>) = st"
    using OTP_save_found [OF assms found, of "(''isVerified'', JBool True) # props dc"]
    by (simp add: OTP_save_def cong: if_cong)
  then show ?thesis
    using Some by (simp add: verifyOTP_def)
qed

lemma useOTP_success:
  assumes "find (\<lambda>e. otpType (snd e) = ty) (otps st) = Some (i, r)"
    and "\<not> isUsed r" and "t \<noteq> []" and "verifyPassword d t (verificationToken r)"
  shows "useOTP d st None ty (Some t) =
     (Inr \<lparr>doc_id = i, doc = r\<lparr>isUsed := True\<rparr>, props = []\<rparr>,
      OTP_save st \<lparr>doc_id = i, doc = r\<lparr>isUsed := True\<rparr>, props = []\<rparr>)"
  using assms(2-4)
  by (simp add: useOTP_def OTP_findOne_first [OF assms(1)] prop_of_def Let_def)

lemma useOTP_already_used:
  "find (\<lambda>e. otpType (snd e) = ty) (otps st) = Some (i, r) \<Longrightarrow> isUsed r \<Longrightarrow>
   useOTP d st None ty token = (Inl (UnauthorizedError ''OTP already used''), st)"
  by (simp add: useOTP_def OTP_findOne_first)

lemma verifyOTP_already_used:
  "find (\<lambda>e. otpType (snd e) = ty) (otps st) = Some (i, r) \<Longrightarrow> isUsed r \<Longrightarrow>
   verifyOTP d st None ty otp = (Inl (UnauthorizedError ''OTP already used''), st)"
  by (simp add: verifyOTP_def OTP_findOne_first)

lemma found_after_use:
  assumes "find (\<lambda>e. otpType (snd e) = ty) (otps st) = Some (i, r)"
  shows "find (\<lambda>e. otpType (snd e) = ty)
       (otps (OTP_save st \<lparr>doc_id = i, doc = r\<lparr>isUsed := True\<rparr>, props = []\<rparr>))
     = Some (i, r\<lparr>isUsed := True\<rparr>)"
proof -
  have "otpType r = ty" using find_SomeD [OF assms] by simp
  then show ?thesis
    using find_after_save [OF assms, of "r\<lparr>isUsed := True\<rparr>"]
    by (simp add: OTP_save_def cong: if_cong)
qed

lemma useOTP_Inr:
  assumes "fst (useOTP d st otpId ty tok) = Inr dc"
  shows "\<exists>i r. otpId = None \<and> find (\<lambda>e. otpType (snd e) = ty) (otps st) = Some (i, r)
     \<and> \<not> isUsed r \<and> dc = \<lparr>doc_id = i, doc = r\<lparr>isUsed := True\<rparr>, props = []\<rparr>
     \<and> snd (useOTP d st otpId ty tok) = OTP_save st dc"
proof (cases "OTP_findOne st otpId ty")
  case None
  then show ?thesis using assms by (simp add: useOTP_not_found)
next
  case (Some found)
  from OTP_findOne_SomeD [OF Some] have facts: "otpId = None"
    "find (\<lambda>e. otpType (snd e) = ty) (otps st) = Some (doc_id found, doc found)"
    "props found = []"
    by simp_all
  have shape: "found = \<lparr>doc_id = doc_id found, doc = doc found, props = []\<rparr>"
    using facts(3) by simp
  show ?thesis
    using assms Some facts
    by (auto simp: useOTP_def prop_of_def Let_def split: if_splits)
qed

lemma useOTP_Inl:
  "fst (useOTP d st otpId ty tok) = Inl e \<Longrightarrow> snd (useOTP d st otpId ty tok) = st"
  by (auto simp: useOTP_def Let_def split: option.splits if_splits)

lemma createOTP_rejected:
  "createOTP d st new_id uid ty multiUse otp token
     = Inl (OtherError ''OTP validation failed: hashedOTP: Path `hashedOTP` is required.'')"
  by (simp add: createOTP_def OTP_create_def)

lemma otp_step_ids: "map fst (otps (otp_step d st c)) = map fst (otps st)"
proof (cases c)
  case (CreateOTP nid u ty m k1 k2)
  then show ?thesis by (simp add: createOTP_rejected)
next
  case (VerifyOTP oid ty otp)
  then show ?thesis
    by (auto simp: verifyOTP_def OTP_save_ids split: option.splits)
next
  case (UseOTP oid ty tok)
  then show ?thesis
    by (auto simp: useOTP_def Let_def OTP_save_ids split: option.splits)
qed

lemma otp_step_unique: "unique_ids st \<Longrightarrow> unique_ids (otp_step d st c)"
  by (simp add: unique_ids_def otp_step_ids)

text \<open>What one call does to the record stored under an identifier.\<close>

lemma otp_step_record:
  assumes "unique_ids st" and "map_of (otps st) i = Some r"
  shows "map_of (otps (otp_step d st c)) i = Some r
     \<or> (map_of (otps (otp_step d st c)) i = Some (r\<lparr>isUsed := True\<rparr>) \<and> \<not> isUsed r
        \<and> (\<exists>ty tok. c = UseOTP None ty tok
              \<and> fst (useOTP d st None ty tok)
                  = Inr \<lparr>doc_id = i, doc = r\<lparr>isUsed := True\<rparr>, props = []\<rparr>))"
proof (cases c)
  case (CreateOTP nid u ty m k1 k2)
  then show ?thesis using assms(2) by (simp add: createOTP_rejected)
next
  case (VerifyOTP oid ty otp)
  then show ?thesis using assms by (simp add: verifyOTP_state)
next
  case (UseOTP oid ty tok)
  show ?thesis
  proof (cases "fst (useOTP d st oid ty tok)")
    case (Inl e)
    then show ?thesis using assms(2) UseOTP by (simp add: useOTP_Inl)
  next
    case (Inr dc)
    from useOTP_Inr [OF Inr] obtain j q where q: "oid = None"
      "find (\<lambda>e. otpType (snd e) = ty) (otps st) = Some (j, q)" "\<not> isUsed q"
      "dc = \<lparr>doc_id = j, doc = q\<lparr>isUsed := True\<rparr>, props = []\<rparr>"
      "snd (useOTP d st oid ty tok) = OTP_save st dc"
      by blast
    have stored: "map_of (otps st) j = Some q"
      using find_SomeD [OF q(2)] assms(1) by (simp add: unique_ids_def)
    have after: "map_of (otps (otp_step d st c)) i
        = (if i = j then Some (q\<lparr>isUsed := True\<rparr>) else Some r)"
      using UseOTP q(4,5) assms(2) by (simp add: OTP_save_def map_of_after_save)
    show ?thesis
    proof (cases "i = j")
      case True
      then have "q = r" using stored assms(2) by simp
      then show ?thesis using True after UseOTP Inr q by simp
    next
      case False
      then show ?thesis using after by simp
    qed
  qed
qed

lemma otp_run_used:
  "unique_ids st \<Longrightarrow> map_of (otps st) i = Some r \<Longrightarrow> isUsed r \<Longrightarrow>
   map_of (otps (otp_run d st cs)) i = Some r"
proof (induction cs arbitrary: st)
  case Nil
  then show ?case by simp
next
  case (Cons c cs)
  have "map_of (otps (otp_step d st c)) i = Some r"
    using otp_step_record [OF Cons.prems(1,2), of d c] Cons.prems(3) by auto
  then show ?case
    using Cons.IH [OF otp_step_unique [OF Cons.prems(1)]] Cons.prems(3) by simp
qed

subsection \<open>Expiry\<close>

text \<open>
  Claim C1, as stated: a record whose \<^verbatim>\<open>expiresAt\<close> has passed never validates. The sample
  record expired a thousand seconds before the sample clock and is still in the
  collection. A call that leaves \<^verbatim>\<open>otpId\<close> out resolves it by its type, and \<^verbatim>\<open>verifyOTP\<close>
  with its code and \<^verbatim>\<open>useOTP\<close> with its verification token both succeed; \<^verbatim>\<open>useOTP\<close> even
  consumes it.
\<close>

theorem expired_otp_validates_counterexample:
  "otps sample_otp_state = [(''otp1'', sample_otp)]
   \<and> expiresAt sample_otp < clock sample_otp_state
   \<and> verifyOTP sample_otp_deps sample_otp_state None ''EMAIL'' (Some ''123456'')
       = (Inr (), sample_otp_state)
   \<and> useOTP sample_otp_deps sample_otp_state None ''EMAIL'' (Some ''654321'')
       = (Inr \<lparr>doc_id = ''otp1'', doc = sample_otp\<lparr>isUsed := True\<rparr>, props = []\<rparr>,
          sample_otp_state\<lparr>otps := [(''otp1'', sample_otp\<lparr>isUsed := True\<rparr>)]\<rparr>)"
proof -
  have stored: "otps sample_otp_state = [(''otp1'', sample_otp)]"
    by (simp add: sample_otp_state_def)
  have past: "expiresAt sample_otp < clock sample_otp_state"
    by (simp add: sample_otp_state_def sample_otp_def)
  have unique: "unique_ids sample_otp_state"
    by (simp add: unique_ids_def stored)
  have first: "find (\<lambda>e. otpType (snd e) = ''EMAIL'') (otps sample_otp_state)
      = Some (''otp1'', sample_otp)"
    by (simp add: stored sample_otp_def)
  have unused: "\<not> isUsed sample_otp"
    by (simp add: sample_otp_def)
  have code_ok: "verifyPassword sample_otp_deps ''123456'' (Some (hashedOTP sample_otp))"
    by (simp add: sample_otp_deps_def sample_otp_def)
  have token_ok: "verifyPassword sample_otp_deps ''654321'' (verificationToken sample_otp)"
    by (simp add: sample_otp_deps_def sample_otp_def)
  have v: "verifyOTP sample_otp_deps sample_otp_state None ''EMAIL'' (Some ''123456'')
       = (Inr (), sample_otp_state)"
    by (rule verifyOTP_success [OF unique first unused _ code_ok]) simp
  have u: "useOTP sample_otp_deps sample_otp_state None ''EMAIL'' (Some ''654321'')
       = (Inr \<lparr>doc_id = ''otp1'', doc = sample_otp\<lparr>isUsed := True\<rparr>, props = []\<rparr>,
          sample_otp_state\<lparr>otps := [(''otp1'', sample_otp\<lparr>isUsed := True\<rparr>)]\<rparr>)"
    by (subst useOTP_success [OF first unused _ token_ok])
      (simp_all add: OTP_save_def stored cong: if_cong)
  show ?thesis using stored past v u by simp
qed

text \<open>
  Claim C1, amended. Neither \<^verbatim>\<open>verifyOTP\<close> nor \<^verbatim>\<open>useOTP\<close> compares \<^verbatim>\<open>expiresAt\<close> with the
  clock: their outcome is the same at every clock value. Expired records stop validating
  when the expiry index of the collection removes them: after the removal, whatever
  record a call validates or consumes has an \<^verbatim>\<open>expiresAt\<close> that lies ahead, and when every
  stored record of the requested type had expired, both calls fail with Unauthorized,
  whatever code or token is supplied and whatever the \<^verbatim>\<open>isUsed\<close> flags were.
\<close>

theorem expired_otp_rejected_once_removed:
  "(\<forall>t. fst (verifyOTP d (st\<lparr>clock := t\<rparr>) otpId ty otp) = fst (verifyOTP d st otpId ty otp))
   \<and> (\<forall>t. fst (useOTP d (st\<lparr>clock := t\<rparr>) otpId ty token) = fst (useOTP d st otpId ty token))
   \<and> ((\<forall>e \<in> set (otps st). otpType (snd e) = ty \<longrightarrow> expiresAt (snd e) \<le> clock st) \<longrightarrow>
        verifyOTP d (ttl_expire st) otpId ty otp
          = (Inl (UnauthorizedError ''Otp not found. It must have expired''), ttl_expire st)
        \<and> useOTP d (ttl_expire st) otpId ty token
          = (Inl (UnauthorizedError ''Otp not found. It must have expired''), ttl_expire st))
   \<and> (\<forall>dc. fst (useOTP d (ttl_expire st) otpId ty token) = Inr dc \<longrightarrow>
        clock st < expiresAt (doc dc))
   \<and> (fst (verifyOTP d (ttl_expire st) otpId ty otp) = Inr () \<longrightarrow>
        (\<exists>e \<in> set (otps st). otpType (snd e) = ty \<and> clock st < expiresAt (snd e)))"
proof -
  have v: "fst (verifyOTP d (st\<lparr>clock := t\<rparr>) otpId ty otp) = fst (verifyOTP d st otpId ty otp)"
    for t
    by (simp add: verifyOTP_def OTP_findOne_clock split: option.split)
  have u: "fst (useOTP d (st\<lparr>clock := t\<rparr>) otpId ty token) = fst (useOTP d st otpId ty token)"
    for t
    by (simp add: useOTP_def OTP_findOne_clock Let_def split: option.split)
  have gone: "verifyOTP d (ttl_expire st) otpId ty otp
          = (Inl (UnauthorizedError ''Otp not found. It must have expired''), ttl_expire st)
        \<and> useOTP d (ttl_expire st) otpId ty token
          = (Inl (UnauthorizedError ''Otp not found. It must have expired''), ttl_expire st)"
    if all: "\<forall>e \<in> set (otps st). otpType (snd e) = ty \<longrightarrow> expiresAt (snd e) \<le> clock st"
  proof -
    have "find (\<lambda>e. otpType (snd e) = ty) (otps (ttl_expire st)) = None"
      using all by (auto simp: ttl_expire_def find_None_iff)
    then have "OTP_findOne (ttl_expire st) otpId ty = None"
      by (simp add: OTP_findOne_def split: option.split)
    then show ?thesis
      by (simp add: verifyOTP_not_found useOTP_not_found)
  qed
  have ahead_use: "clock st < expiresAt (doc dc)"
    if "fst (useOTP d (ttl_expire st) otpId ty token) = Inr dc" for dc
  proof -
    from useOTP_Inr [OF that] obtain i r where
      r: "find (\<lambda>e. otpType (snd e) = ty) (otps (ttl_expire st)) = Some (i, r)"
      "dc = \<lparr>doc_id = i, doc = r\<lparr>isUsed := True\<rparr>, props = []\<rparr>"
      by blast
    have "(i, r) \<in> set (otps (ttl_expire st))"
      using find_SomeD [OF r(1)] by simp
    then show ?thesis
      using r(2) by (auto simp: ttl_expire_def)
  qed
  have ahead_verify: "\<exists>e \<in> set (otps st). otpType (snd e) = ty \<and> clock st < expiresAt (snd e)"
    if ok: "fst (verifyOTP d (ttl_expire st) otpId ty otp) = Inr ()"
  proof -
    obtain dc where dc: "OTP_findOne (ttl_expire st) otpId ty = Some dc"
      using ok by (cases "OTP_findOne (ttl_expire st) otpId ty") (simp_all add: verifyOTP_not_found)
    from OTP_findOne_SomeD [OF dc]
    have "find (\<lambda>e. otpType (snd e) = ty) (otps (ttl_expire st)) = Some (doc_id dc, doc dc)"
      by simp
    from find_SomeD [OF this]
    have "(doc_id dc, doc dc) \<in> set (otps (ttl_expire st))" "otpType (doc dc) = ty"
      by simp_all
    then have "(doc_id dc, doc dc) \<in> set (otps st)"
      "otpType (snd (doc_id dc, doc dc)) = ty \<and> clock st < expiresAt (snd (doc_id dc, doc dc))"
      by (simp_all add: ttl_expire_def)
    then show ?thesis
      by (rule bexI [rotated])
  qed
  show ?thesis
    using v u gone ahead_use ahead_verify by blast
qed

theorem expired_otp_rejected_once_removed_witness:
  "otps sample_otp_state = [(''otp1'', sample_otp)]
   \<and> expiresAt sample_otp \<le> clock sample_otp_state
   \<and> fst (verifyOTP sample_otp_deps (ttl_expire sample_otp_state) None ''EMAIL''
            (Some ''123456''))
       = Inl (UnauthorizedError ''Otp not found. It must have expired'')
   \<and> fst (useOTP sample_otp_deps (ttl_expire sample_otp_state) None ''EMAIL''
            (Some ''654321''))
       = Inl (UnauthorizedError ''Otp not found. It must have expired'')"
proof -
  have expired: "\<forall>e \<in> set (otps sample_otp_state).
       otpType (snd e) = ''EMAIL'' \<longrightarrow> expiresAt (snd e) \<le> clock sample_otp_state"
    by (simp add: sample_otp_state_def sample_otp_def)
  note inst = expired_otp_rejected_once_removed
    [of sample_otp_deps sample_otp_state None "''EMAIL''" "Some ''123456''" "Some ''654321''"]
  from inst expired have
    "verifyOTP sample_otp_deps (ttl_expire sample_otp_state) None ''EMAIL'' (Some ''123456'')
       = (Inl (UnauthorizedError ''Otp not found. It must have expired''),
          ttl_expire sample_otp_state)
     \<and> useOTP sample_otp_deps (ttl_expire sample_otp_state) None ''EMAIL'' (Some ''654321'')
       = (Inl (UnauthorizedError ''Otp not found. It must have expired''),
          ttl_expire sample_otp_state)"
    by blast
  moreover have "otps sample_otp_state = [(''otp1'', sample_otp)]"
    "expiresAt sample_otp \<le> clock sample_otp_state"
    by (simp_all add: sample_otp_state_def sample_otp_def)
  ultimately show ?thesis
    by simp
qed

subsection \<open>Creation and consumption\<close>

text \<open>
  Claim C2 says that a record produced by \<^verbatim>\<open>createOTP\<close> can be consumed by \<^verbatim>\<open>useOTP\<close> with
  that record's id and the verification token generated at creation. The code does not
  get there. \<^verbatim>\<open>createOTP\<close> hands the hash over under the key \<^verbatim>\<open>otp\<close>, the schema requires
  \<^verbatim>\<open>hashedOTP\<close>, and the creation is rejected for every input: the call throws and the
  collection is as before. \<^verbatim>\<open>useOTP\<close> with the identifier meant for the record then finds
  nothing, and on a collection that held nothing before, it finds nothing whatever it is
  called with.
\<close>

theorem createOTP_useOTP_round_trip:
  "createOTP d st new_id uid ty multiUse otp token
     = Inl (OtherError ''OTP validation failed: hashedOTP: Path `hashedOTP` is required.'')
   \<and> otp_step d st (CreateOTP new_id uid ty multiUse otp token) = st
   \<and> useOTP d (otp_step d st (CreateOTP new_id uid ty multiUse otp token))
        (Some new_id) ty (Some token)
       = (Inl (UnauthorizedError ''Otp not found. It must have expired''), st)
   \<and> (otps st = [] \<longrightarrow>
        (\<forall>otpId tok. useOTP d (otp_step d st (CreateOTP new_id uid ty multiUse otp token))
             otpId ty tok
           = (Inl (UnauthorizedError ''Otp not found. It must have expired''), st)))"
proof -
  have rejected: "createOTP d st new_id uid ty multiUse otp token
     = Inl (OtherError ''OTP validation failed: hashedOTP: Path `hashedOTP` is required.'')"
    by (rule createOTP_rejected)
  then have same: "otp_step d st (CreateOTP new_id uid ty multiUse otp token) = st"
    by simp
  have named: "useOTP d st (Some new_id) ty (Some token)
       = (Inl (UnauthorizedError ''Otp not found. It must have expired''), st)"
    by (rule useOTP_not_found [OF OTP_findOne_named])
  have empty: "useOTP d st otpId ty tok
       = (Inl (UnauthorizedError ''Otp not found. It must have expired''), st)"
    if "otps st = []" for otpId tok
  proof -
    have "OTP_findOne st otpId ty = None"
      using that by (simp add: OTP_findOne_def split: option.split)
    then show ?thesis by (rule useOTP_not_found)
  qed
  show ?thesis
    using rejected same named empty by simp
qed

theorem createOTP_useOTP_round_trip_witness:
  "otps \<lparr>clock = 0, otps = []\<rparr> = []
   \<and> createOTP sample_otp_deps \<lparr>clock = 0, otps = []\<rparr> ''otp2'' ''aa'' ''EMAIL'' False
        ''111111'' ''222222''
       = Inl (OtherError ''OTP validation failed: hashedOTP: Path `hashedOTP` is required.'')
   \<and> useOTP sample_otp_deps
        (otp_step sample_otp_deps \<lparr>clock = 0, otps = []\<rparr>
           (CreateOTP ''otp2'' ''aa'' ''EMAIL'' False ''111111'' ''222222''))
        None ''EMAIL'' (Some ''222222'')
       = (Inl (UnauthorizedError ''Otp not found. It must have expired''),
          \<lparr>clock = 0, otps = []\<rparr>)"
proof -
  have empty: "otps \<lparr>clock = 0, otps = []\<rparr> = []" by simp
  note inst = createOTP_useOTP_round_trip
    [of sample_otp_deps "\<lparr>clock = 0, otps = []\<rparr>" "''otp2''" "''aa''" "''EMAIL''" False
      "''111111''" "''222222''"]
  from inst have rejected: "createOTP sample_otp_deps \<lparr>clock = 0, otps = []\<rparr> ''otp2'' ''aa''
        ''EMAIL'' False ''111111'' ''222222''
       = Inl (OtherError ''OTP validation failed: hashedOTP: Path `hashedOTP` is required.'')"
    by (rule conjunct1)
  from inst empty have "\<forall>otpId tok. useOTP sample_otp_deps
        (otp_step sample_otp_deps \<lparr>clock = 0, otps = []\<rparr>
           (CreateOTP ''otp2'' ''aa'' ''EMAIL'' False ''111111'' ''222222''))
        otpId ''EMAIL'' tok
       = (Inl (UnauthorizedError ''Otp not found. It must have expired''),
          \<lparr>clock = 0, otps = []\<rparr>)"
    by blast
  then have "useOTP sample_otp_deps
        (otp_step sample_otp_deps \<lparr>clock = 0, otps = []\<rparr>
           (CreateOTP ''otp2'' ''aa'' ''EMAIL'' False ''111111'' ''222222''))
        None ''EMAIL'' (Some ''222222'')
       = (Inl (UnauthorizedError ''Otp not found. It must have expired''),
          \<lparr>clock = 0, otps = []\<rparr>)"
    by blast
  with empty rejected show ?thesis by blast
qed

text \<open>
  Claim C6 says that a record created with \<^verbatim>\<open>multiUse = true\<close> can be consumed any number
  of times. No such record comes into being: \<^verbatim>\<open>createOTP\<close> with \<^verbatim>\<open>multiUse = true\<close> is
  rejected like every other creation, and a \<^verbatim>\<open>multiUse\<close> flag could not be stored anyway,
  the schema having no such path. \<^verbatim>\<open>useOTP\<close> with an \<^verbatim>\<open>otpId\<close> finds nothing and succeeds
  zero times. Where \<^verbatim>\<open>useOTP\<close> does reach a stored record (the first of its type, when
  \<^verbatim>\<open>otpId\<close> is left out), \<^verbatim>\<open>otpRecord.multiUse\<close> is \<^verbatim>\<open>undefined\<close>: the first success marks the
  record used, and every later call of that kind fails with \<open>OTP already used\<close>.
\<close>

theorem useOTP_consumes_every_record:
  assumes "find (\<lambda>e. otpType (snd e) = ty) (otps st) = Some (i, r)" and "\<not> isUsed r"
    and "t \<noteq> []" and "verifyPassword d t (verificationToken r)"
  shows "useOTP d st None ty (Some t) =
       (Inr \<lparr>doc_id = i, doc = r\<lparr>isUsed := True\<rparr>, props = []\<rparr>,
        OTP_save st \<lparr>doc_id = i, doc = r\<lparr>isUsed := True\<rparr>, props = []\<rparr>)
   \<and> (\<forall>d' t'. useOTP d' (snd (useOTP d st None ty (Some t))) None ty t' =
         (Inl (UnauthorizedError ''OTP already used''), snd (useOTP d st None ty (Some t))))
   \<and> (\<forall>d' st0 x t'. useOTP d' st0 (Some x) ty t' =
         (Inl (UnauthorizedError ''Otp not found. It must have expired''), st0))
   \<and> (\<forall>st0 nid u c k. otp_step d st0 (CreateOTP nid u ty True c k) = st0)"
proof -
  let ?used = "\<lparr>doc_id = i, doc = r\<lparr>isUsed := True\<rparr>, props = []\<rparr>"
  have first: "useOTP d st None ty (Some t) = (Inr ?used, OTP_save st ?used)"
    by (rule useOTP_success [OF assms])
  have again: "useOTP d' (OTP_save st ?used) None ty t'
      = (Inl (UnauthorizedError ''OTP already used''), OTP_save st ?used)"
    for d' t'
    by (rule useOTP_already_used [OF found_after_use [OF assms(1)]]) simp
  have named: "useOTP d' st0 (Some x) ty t'
      = (Inl (UnauthorizedError ''Otp not found. It must have expired''), st0)"
    for d' st0 x t'
    by (rule useOTP_not_found [OF OTP_findOne_named])
  have create: "otp_step d st0 (CreateOTP nid u ty True c k) = st0" for st0 nid u c k
    by (simp add: createOTP_rejected)
  show ?thesis
    using first again named create by simp
qed

theorem useOTP_consumes_every_record_witness:
  "find (\<lambda>e. otpType (snd e) = ''EMAIL'') (otps sample_otp_state) = Some (''otp1'', sample_otp)
   \<and> verifyPassword sample_otp_deps ''654321'' (verificationToken sample_otp)
   \<and> fst (useOTP sample_otp_deps sample_otp_state None ''EMAIL'' (Some ''654321''))
       = Inr \<lparr>doc_id = ''otp1'', doc = sample_otp\<lparr>isUsed := True\<rparr>, props = []\<rparr>
   \<and> fst (useOTP sample_otp_deps
            (snd (useOTP sample_otp_deps sample_otp_state None ''EMAIL'' (Some ''654321'')))
            None ''EMAIL'' (Some ''654321''))
       = Inl (UnauthorizedError ''OTP already used'')
   \<and> fst (useOTP sample_otp_deps sample_otp_state (Some ''otp1'') ''EMAIL'' (Some ''654321''))
       = Inl (UnauthorizedError ''Otp not found. It must have expired'')"
proof -
  have first_of: "find (\<lambda>e. otpType (snd e) = ''EMAIL'') (otps sample_otp_state)
      = Some (''otp1'', sample_otp)"
    by (simp add: sample_otp_state_def sample_otp_def)
  have unused: "\<not> isUsed sample_otp"
    by (simp add: sample_otp_def)
  have nonempty: "''654321'' \<noteq> []" by simp
  have token_ok: "verifyPassword sample_otp_deps ''654321'' (verificationToken sample_otp)"
    by (simp add: sample_otp_deps_def sample_otp_def)
  note inst = useOTP_consumes_every_record [OF first_of unused nonempty token_ok]
  from inst have first:
    "fst (useOTP sample_otp_deps sample_otp_state None ''EMAIL'' (Some ''654321''))
       = Inr \<lparr>doc_id = ''otp1'', doc = sample_otp\<lparr>isUsed := True\<rparr>, props = []\<rparr>"
    by simp
  from inst have "\<forall>d' t'. useOTP d'
         (snd (useOTP sample_otp_deps sample_otp_state None ''EMAIL'' (Some ''654321'')))
         None ''EMAIL'' t'
       = (Inl (UnauthorizedError ''OTP already used''),
          snd (useOTP sample_otp_deps sample_otp_state None ''EMAIL'' (Some ''654321'')))"
    by blast
  then have again: "fst (useOTP sample_otp_deps
            (snd (useOTP sample_otp_deps sample_otp_state None ''EMAIL'' (Some ''654321'')))
            None ''EMAIL'' (Some ''654321''))
       = Inl (UnauthorizedError ''OTP already used'')"
    by simp
  from inst have "\<forall>d' st0 x t'. useOTP d' st0 (Some x) ''EMAIL'' t' =
         (Inl (UnauthorizedError ''Otp not found. It must have expired''), st0)"
    by blast
  then have named:
    "fst (useOTP sample_otp_deps sample_otp_state (Some ''otp1'') ''EMAIL'' (Some ''654321''))
       = Inl (UnauthorizedError ''Otp not found. It must have expired'')"
    by simp
  show ?thesis
    using first_of token_ok first again named by blast
qed

text \<open>
  Claim C8 says that a successful \<^verbatim>\<open>verifyOTP\<close> sets \<^verbatim>\<open>isVerified\<close> on the record. A
  \<^verbatim>\<open>verifyOTP\<close> that names an \<^verbatim>\<open>otpId\<close> finds nothing. One that leaves it out reaches the
  first stored record of the type; on success the code assigns \<^verbatim>\<open>isVerified\<close> on that
  document and saves it, but the schema has no such path, so nothing of it reaches the
  collection: \<^verbatim>\<open>verifyOTP\<close> never changes the state, whatever it is called with. The rest
  of the claim holds on that route: a second \<^verbatim>\<open>verifyOTP\<close> with the same code succeeds
  again, and once \<^verbatim>\<open>useOTP\<close> has consumed the record \<^verbatim>\<open>verifyOTP\<close> fails.
\<close>

theorem verifyOTP_stores_nothing:
  assumes "unique_ids st"
    and "find (\<lambda>e. otpType (snd e) = ty) (otps st) = Some (i, r)" and "\<not> isUsed r"
    and "c \<noteq> []" and "verifyPassword d c (Some (hashedOTP r))"
  shows "verifyOTP d st None ty (Some c) = (Inr (), st)
   \<and> verifyOTP d (snd (verifyOTP d st None ty (Some c))) None ty (Some c) = (Inr (), st)
   \<and> (\<forall>otpId otp. snd (verifyOTP d st otpId ty otp) = st)
   \<and> (\<forall>x otp. verifyOTP d st (Some x) ty otp
         = (Inl (UnauthorizedError ''Otp not found. It must have expired''), st))
   \<and> (\<forall>t. t \<noteq> [] \<and> verifyPassword d t (verificationToken r) \<longrightarrow>
        fst (verifyOTP d (snd (useOTP d st None ty (Some t))) None ty (Some c))
          = Inl (UnauthorizedError ''OTP already used''))"
proof -
  have first: "verifyOTP d st None ty (Some c) = (Inr (), st)"
    by (rule verifyOTP_success [OF assms])
  have same: "snd (verifyOTP d st otpId ty otp) = st" for otpId otp
    by (rule verifyOTP_state [OF assms(1)])
  have named: "verifyOTP d st (Some x) ty otp
         = (Inl (UnauthorizedError ''Otp not found. It must have expired''), st)" for x otp
    by (rule verifyOTP_not_found [OF OTP_findOne_named])
  have consumed: "fst (verifyOTP d (snd (useOTP d st None ty (Some t))) None ty (Some c))
          = Inl (UnauthorizedError ''OTP already used'')"
    if "t \<noteq> []" "verifyPassword d t (verificationToken r)" for t
    using useOTP_success [OF assms(2,3) that]
      verifyOTP_already_used [OF found_after_use [OF assms(2)], of d "Some c"]
    by simp
  show ?thesis
    using first same named consumed by simp
qed

theorem verifyOTP_stores_nothing_witness:
  "unique_ids sample_otp_state
   \<and> find (\<lambda>e. otpType (snd e) = ''EMAIL'') (otps sample_otp_state) = Some (''otp1'', sample_otp)
   \<and> verifyPassword sample_otp_deps ''123456'' (Some (hashedOTP sample_otp))
   \<and> verifyOTP sample_otp_deps sample_otp_state None ''EMAIL'' (Some ''123456'')
       = (Inr (), sample_otp_state)
   \<and> verifyOTP sample_otp_deps
        (snd (verifyOTP sample_otp_deps sample_otp_state None ''EMAIL'' (Some ''123456'')))
        None ''EMAIL'' (Some ''123456'')
       = (Inr (), sample_otp_state)"
proof -
  have unique: "unique_ids sample_otp_state"
    by (simp add: unique_ids_def sample_otp_state_def)
  have first_of: "find (\<lambda>e. otpType (snd e) = ''EMAIL'') (otps sample_otp_state)
      = Some (''otp1'', sample_otp)"
    by (simp add: sample_otp_state_def sample_otp_def)
  have unused: "\<not> isUsed sample_otp"
    by (simp add: sample_otp_def)
  have nonempty: "''123456'' \<noteq> []" by simp
  have code_ok: "verifyPassword sample_otp_deps ''123456'' (Some (hashedOTP sample_otp))"
    by (simp add: sample_otp_deps_def sample_otp_def)
  note inst = verifyOTP_stores_nothing [OF unique first_of unused nonempty code_ok]
  from inst have first:
    "verifyOTP sample_otp_deps sample_otp_state None ''EMAIL'' (Some ''123456'')
       = (Inr (), sample_otp_state)"
    by (rule conjunct1)
  from inst have second: "verifyOTP sample_otp_deps
        (snd (verifyOTP sample_otp_deps sample_otp_state None ''EMAIL'' (Some ''123456'')))
        None ''EMAIL'' (Some ''123456'')
       = (Inr (), sample_otp_state)"
    by blast
  show ?thesis
    using unique first_of code_ok first second by blast
qed

subsection \<open>The life of the \<^verbatim>\<open>isUsed\<close> flag\<close>

text \<open>
  Claim C9 describes the life of \<^verbatim>\<open>isUsed\<close>: set to false by \<^verbatim>\<open>createOTP\<close>, moved from
  false to true by a successful \<^verbatim>\<open>useOTP\<close> on a record that is not multi-use, left alone
  by \<^verbatim>\<open>verifyOTP\<close>, never reset. The code has no beginning of that life: \<^verbatim>\<open>createOTP\<close> is
  rejected for every input and leaves the collection as it is, so it initializes nothing,
  and no call adds or removes a document. For the documents that are in the collection,
  the rest holds in this form: over every sequence of calls a used record stays as it is;
  \<^verbatim>\<open>verifyOTP\<close> leaves the state as it is; and a single call changes the flag of a stored
  record only from false to true, only when it is a successful \<^verbatim>\<open>useOTP\<close> returning that
  record, and then on every such success, no \<^verbatim>\<open>multiUse\<close> flag being stored anywhere to
  hold it back.
\<close>

theorem isUsed_only_set_by_useOTP:
  assumes "unique_ids st"
  shows "(\<forall>new_id uid ty multiUse otp token.
        createOTP d st new_id uid ty multiUse otp token
          = Inl (OtherError ''OTP validation failed: hashedOTP: Path `hashedOTP` is required.'')
        \<and> otp_step d st (CreateOTP new_id uid ty multiUse otp token) = st)
   \<and> map fst (otps (otp_step d st c)) = map fst (otps st)
   \<and> (\<forall>i r. map_of (otps st) i = Some r \<and> isUsed r \<longrightarrow>
         map_of (otps (otp_run d st cs)) i = Some r)
   \<and> (\<forall>otpId ty otp. snd (verifyOTP d st otpId ty otp) = st)
   \<and> (\<forall>i r r'. map_of (otps st) i = Some r \<and> map_of (otps (otp_step d st c)) i = Some r'
          \<and> r' \<noteq> r \<longrightarrow>
        \<not> isUsed r \<and> r' = r\<lparr>isUsed := True\<rparr>
        \<and> (\<exists>ty tok. c = UseOTP None ty tok
              \<and> fst (useOTP d st None ty tok) = Inr \<lparr>doc_id = i, doc = r', props = []\<rparr>))
   \<and> (\<forall>otpId ty tok dc. fst (useOTP d st otpId ty tok) = Inr dc \<longrightarrow>
        isUsed (doc dc) \<and> map_of (otps (snd (useOTP d st otpId ty tok))) (doc_id dc)
          = Some (doc dc))"
proof -
  have create: "createOTP d st new_id uid ty multiUse otp token
          = Inl (OtherError ''OTP validation failed: hashedOTP: Path `hashedOTP` is required.'')
        \<and> otp_step d st (CreateOTP new_id uid ty multiUse otp token) = st"
    for new_id uid ty multiUse otp token
    by (simp add: createOTP_rejected)
  have ids: "map fst (otps (otp_step d st c)) = map fst (otps st)"
    by (rule otp_step_ids)
  have runs: "map_of (otps (otp_run d st cs)) i = Some r"
    if "map_of (otps st) i = Some r" "isUsed r" for i r
    using assms that by (rule otp_run_used)
  have verify: "snd (verifyOTP d st otpId ty otp) = st" for otpId ty otp
    by (rule verifyOTP_state [OF assms])
  have step: "\<not> isUsed r \<and> r' = r\<lparr>isUsed := True\<rparr>
        \<and> (\<exists>ty tok. c = UseOTP None ty tok
              \<and> fst (useOTP d st None ty tok) = Inr \<lparr>doc_id = i, doc = r', props = []\<rparr>)"
    if "map_of (otps st) i = Some r" "map_of (otps (otp_step d st c)) i = Some r'" "r' \<noteq> r"
    for i r r'
    using otp_step_record [OF assms that(1), of d c] that(2,3) by auto
  have use: "isUsed (doc dc)
      \<and> map_of (otps (snd (useOTP d st otpId ty tok))) (doc_id dc) = Some (doc dc)"
    if ok: "fst (useOTP d st otpId ty tok) = Inr dc" for otpId ty tok dc
  proof -
    from useOTP_Inr [OF ok] obtain j q where q:
      "find (\<lambda>e. otpType (snd e) = ty) (otps st) = Some (j, q)"
      "dc = \<lparr>doc_id = j, doc = q\<lparr>isUsed := True\<rparr>, props = []\<rparr>"
      "snd (useOTP d st otpId ty tok) = OTP_save st dc"
      by blast
    have "map_of (otps st) j = Some q"
      using find_SomeD [OF q(1)] assms by (simp add: unique_ids_def)
    then show ?thesis
      using q(2,3) by (simp add: OTP_save_def map_of_after_save)
  qed
  show ?thesis
    using create ids runs verify step use by blast
qed

theorem isUsed_only_set_by_useOTP_witness:
  "unique_ids sample_otp_state
   \<and> otp_step sample_otp_deps sample_otp_state
        (CreateOTP ''otp2'' ''aa'' ''EMAIL'' False ''111111'' ''222222'') = sample_otp_state
   \<and> map_of (otps sample_otp_state) ''otp1'' = Some sample_otp
   \<and> map_of (otps (otp_step sample_otp_deps sample_otp_state
        (UseOTP None ''EMAIL'' (Some ''654321'')))) ''otp1'' = Some (sample_otp\<lparr>isUsed := True\<rparr>)
   \<and> fst (useOTP sample_otp_deps sample_otp_state None ''EMAIL'' (Some ''654321''))
       = Inr \<lparr>doc_id = ''otp1'', doc = sample_otp\<lparr>isUsed := True\<rparr>, props = []\<rparr>"
proof -
  let ?use = "UseOTP None ''EMAIL'' (Some ''654321'')"
  have unique: "unique_ids sample_otp_state"
    by (simp add: unique_ids_def sample_otp_state_def)
  have stored: "map_of (otps sample_otp_state) ''otp1'' = Some sample_otp"
    by (simp add: sample_otp_state_def)
  have first_of: "find (\<lambda>e. otpType (snd e) = ''EMAIL'') (otps sample_otp_state)
      = Some (''otp1'', sample_otp)"
    by (simp add: sample_otp_state_def sample_otp_def)
  have unused: "\<not> isUsed sample_otp"
    by (simp add: sample_otp_def)
  have token_ok: "verifyPassword sample_otp_deps ''654321'' (verificationToken sample_otp)"
    by (simp add: sample_otp_deps_def sample_otp_def)
  have after: "map_of (otps (otp_step sample_otp_deps sample_otp_state ?use)) ''otp1''
      = Some (sample_otp\<lparr>isUsed := True\<rparr>)"
    using useOTP_success [OF first_of unused _ token_ok]
    by (simp add: OTP_save_def sample_otp_state_def cong: if_cong)
  have changed: "sample_otp\<lparr>isUsed := True\<rparr> \<noteq> sample_otp"
    using unused by (metis otp.select_convs(4) otp.surjective otp.update_convs(4))
  note inst = isUsed_only_set_by_useOTP [OF unique, of sample_otp_deps ?use "[]"]
  from inst have created: "otp_step sample_otp_deps sample_otp_state
        (CreateOTP ''otp2'' ''aa'' ''EMAIL'' False ''111111'' ''222222'') = sample_otp_state"
    by blast
  from inst stored after changed
  have "\<exists>ty tok. ?use = UseOTP None ty tok
      \<and> fst (useOTP sample_otp_deps sample_otp_state None ty tok)
          = Inr \<lparr>doc_id = ''otp1'', doc = sample_otp\<lparr>isUsed := True\<rparr>, props = []\<rparr>"
    by blast
  then have succeeded:
    "fst (useOTP sample_otp_deps sample_otp_state None ''EMAIL'' (Some ''654321''))
       = Inr \<lparr>doc_id = ''otp1'', doc = sample_otp\<lparr>isUsed := True\<rparr>, props = []\<rparr>"
    by auto
  show ?thesis
    using unique created stored after succeeded by blast
qed

section \<open>Properties of the guarded account actions\<close>

text \<open>
  Claim C7. When the request carries an OTP record whose \<^verbatim>\<open>userId\<close> differs from the
  identifier of the account that the email of the request resolves to, \<^verbatim>\<open>verifyAccount\<close>
  and \<^verbatim>\<open>resetPassword\<close> both end with \<open>UnauthorizedException\<close> and leave the user
  collection as it was: the guard throws before the save and before the update.
\<close>

theorem otp_owner_guard:
  assumes "getUserByEmail ud db mail = Inr (Some u)"
    and "userId (doc r) \<noteq> user_id (user_doc u)"
  shows "verifyAccount ud db (Some r) mail = (Inl (UnauthorizedException not_permitted), db)
   \<and> resetPassword ud db (Some r) mail pw = (Inl (UnauthorizedException not_permitted), db)"
  using assms
  by (simp add: verifyAccount_def verifyAccount_catch_def resetPassword_def
      resetPassword_catch_def loose_ne_def)

theorem otp_owner_guard_witness:
  "getUserByEmail sample_user_deps sample_users ''b@x.com'' = Inr (Some (hd sample_users))
   \<and> userId sample_otp \<noteq> user_id (user_doc (hd sample_users))
   \<and> verifyAccount sample_user_deps sample_users
        (Some \<lparr>doc_id = ''otp1'', doc = sample_otp, props = []\<rparr>) ''b@x.com''
       = (Inl (UnauthorizedException not_permitted), sample_users)
   \<and> resetPassword sample_user_deps sample_users
        (Some \<lparr>doc_id = ''otp1'', doc = sample_otp, props = []\<rparr>) ''b@x.com'' ''Secret2''
       = (Inl (UnauthorizedException not_permitted), sample_users)"
proof -
  have resolved: "getUserByEmail sample_user_deps sample_users ''b@x.com''
      = Inr (Some (hd sample_users))"
    by (simp add: sample_user_deps_def sample_users_def sample_user_def)
  have other: "userId (doc \<lparr>doc_id = ''otp1'', doc = sample_otp, props = []\<rparr>)
      \<noteq> user_id (user_doc (hd sample_users))"
    by (simp add: sample_users_def sample_otp_def)
  show ?thesis
    using resolved other otp_owner_guard [OF resolved other, of "''Secret2''"]
    by simp
qed

end
